theory Spec2Isabelle
  imports Complex_Main
begin

section \<open>JavaScript numbers\<close>

text \<open>
  A JavaScript \<^verbatim>\<open>number\<close> is an IEEE 754 binary64 value: a finite double, one of the two
  infinities, or NaN. A finite double is carried by its real value. Every arithmetic
  operation computes the exact real result and rounds it to the nearest double, ties to the
  even significand; a numeric literal denotes the double nearest to its decimal value. NaN
  is absorbing and no comparison with NaN holds. The sign of zero is not represented: no
  operation below depends on it.

  \<^verbatim>\<open>Math.sqrt\<close> and \<^verbatim>\<open>Math.pow\<close> with the exponent 2 are taken to be correctly rounded,
  as the IEEE 754 square root and the product \<^verbatim>\<open>x * x\<close> are.
\<close>

datatype number = NaN | NegInf | Finite real | PosInf

text \<open>Rounding a real to the nearest integer, a tie going to the even one.\<close>

definition round_half_even :: "real \<Rightarrow> int" where
  "round_half_even q =
     (let n = \<lfloor>q\<rfloor>
      in if q - of_int n < 1 / 2 then n
         else if 1 / 2 < q - of_int n then n + 1
         else if even n then n else n + 1)"

text \<open>
  The doubles around \<open>x\<close> are the multiples of \<open>ulp x\<close>: a double has 53 significant bits,
  so the unit in its last place is \<open>2\<close> to the power \<open>\<lfloor>log\<^sub>2 \<bar>x\<bar>\<rfloor> - 52\<close>, and never below
  \<open>2\<close> to the power \<open>-1074\<close>, the smallest subnormal.
\<close>

definition ulp_exponent :: "real \<Rightarrow> int" where
  "ulp_exponent x = max (\<lfloor>log 2 \<bar>x\<bar>\<rfloor> - 52) (- 1074)"

definition ulp :: "real \<Rightarrow> real" where
  "ulp x = 2 powr of_int (ulp_exponent x)"

definition round64 :: "real \<Rightarrow> real" where
  "round64 x = (if x = 0 then 0 else of_int (round_half_even (x / ulp x)) * ulp x)"

text \<open>
  The result of an operation whose exact value is \<open>x\<close>: rounded as if the exponent range were
  unbounded, and an infinity when the rounded magnitude reaches \<open>2^1024\<close>.
\<close>

definition overflow_bound :: real where
  "overflow_bound = 2 ^ 1024"

definition fl :: "real \<Rightarrow> number" where
  "fl x = (if overflow_bound \<le> round64 x then PosInf
           else if round64 x \<le> - overflow_bound then NegInf
           else Finite (round64 x))"

text \<open>The binary operators \<^verbatim>\<open>a - b\<close> and \<^verbatim>\<open>a + b\<close>.\<close>

fun js_sub :: "number \<Rightarrow> number \<Rightarrow> number" where
  "js_sub NaN _ = NaN"
| "js_sub _ NaN = NaN"
| "js_sub PosInf PosInf = NaN"
| "js_sub NegInf NegInf = NaN"
| "js_sub PosInf _ = PosInf"
| "js_sub NegInf _ = NegInf"
| "js_sub (Finite _) PosInf = NegInf"
| "js_sub (Finite _) NegInf = PosInf"
| "js_sub (Finite x) (Finite y) = fl (x - y)"

fun js_add :: "number \<Rightarrow> number \<Rightarrow> number" where
  "js_add NaN _ = NaN"
| "js_add _ NaN = NaN"
| "js_add PosInf NegInf = NaN"
| "js_add NegInf PosInf = NaN"
| "js_add PosInf _ = PosInf"
| "js_add NegInf _ = NegInf"
| "js_add (Finite _) PosInf = PosInf"
| "js_add (Finite _) NegInf = NegInf"
| "js_add (Finite x) (Finite y) = fl (x + y)"

text \<open>
  \<^verbatim>\<open>Math.pow(base, n)\<close> for an exponent that is a non-negative integer literal (the
  source only ever passes \<^verbatim>\<open>2\<close>): anything to the power 0 is 1, also NaN; otherwise NaN
  stays NaN and an infinity keeps its magnitude, with the sign of an odd power.
\<close>

definition Math_pow :: "number \<Rightarrow> nat \<Rightarrow> number" where
  "Math_pow base n =
     (if n = 0 then Finite 1
      else case base of
        NaN \<Rightarrow> NaN
      | PosInf \<Rightarrow> PosInf
      | NegInf \<Rightarrow> (if even n then PosInf else NegInf)
      | Finite x \<Rightarrow> fl (x ^ n))"

text \<open>\<^verbatim>\<open>Math.sqrt(x)\<close>: NaN for NaN and for a negative argument.\<close>

fun Math_sqrt :: "number \<Rightarrow> number" where
  "Math_sqrt NaN = NaN"
| "Math_sqrt NegInf = NaN"
| "Math_sqrt PosInf = PosInf"
| "Math_sqrt (Finite x) = (if x < 0 then NaN else fl (sqrt x))"

text \<open>The comparison \<^verbatim>\<open>a < b\<close>: false as soon as one side is NaN.\<close>

fun js_lt :: "number \<Rightarrow> number \<Rightarrow> bool" where
  "js_lt NaN _ = False"
| "js_lt _ NaN = False"
| "js_lt PosInf _ = False"
| "js_lt NegInf NegInf = False"
| "js_lt NegInf _ = True"
| "js_lt (Finite _) NegInf = False"
| "js_lt (Finite _) PosInf = True"
| "js_lt (Finite x) (Finite y) = (x < y)"

section \<open>The NMI directories and the nearest-NMI scan\<close>

text \<open>
  \<^verbatim>\<open>{ lat: number; lng: number }\<close> is the type of a selected position and of the values of
  \<^verbatim>\<open>nmiGeocodeData\<close>; \<^verbatim>\<open>interface NmiGeocode { nmi: string; lat: number; lng: number }\<close>
  of \<^verbatim>\<open>MapWithNmi.tsx\<close> adds the identifier. The entries of \<^verbatim>\<open>mockNmiData\<close> in
  \<^verbatim>\<open>App.tsx\<close> have the same three fields. A literal such as \<^verbatim>\<open>-33.8708\<close> is the
  double \<open>fl (-33.8708)\<close>.
\<close>

record LatLng =
  lat :: number
  lng :: number

record NmiGeocode = LatLng +
  nmi :: string

definition mockNmiData :: "NmiGeocode list" where
  "mockNmiData =
    [\<lparr>lat = fl (-33.8708), lng = fl 151.2073, nmi = ''NMI001''\<rparr>,
     \<lparr>lat = fl (-37.8136), lng = fl 144.9631, nmi = ''NMI002''\<rparr>,
     \<lparr>lat = fl (-27.4698), lng = fl 153.0251, nmi = ''NMI003''\<rparr>]"

definition nmiMarkers :: "NmiGeocode list" where
  "nmiMarkers =
    [\<lparr>lat = fl (-33.8708), lng = fl 151.2073, nmi = ''NMI001''\<rparr>,
     \<lparr>lat = fl (-37.8136), lng = fl 144.9631, nmi = ''NMI002''\<rparr>,
     \<lparr>lat = fl (-27.4698), lng = fl 153.0251, nmi = ''NMI003''\<rparr>]"

text \<open>
  The expression both loops compute for an entry into the local \<^verbatim>\<open>dist\<close>:
  \<^verbatim>\<open>Math.sqrt(Math.pow(c.lat - lat, 2) + Math.pow(c.lng - lng, 2))\<close>.
\<close>

definition entry_dist :: "NmiGeocode \<Rightarrow> number \<Rightarrow> number \<Rightarrow> number" where
  "entry_dist c lat' lng' =
     Math_sqrt (js_add (Math_pow (js_sub (lat c) lat') 2) (Math_pow (js_sub (lng c) lng') 2))"

text \<open>
  The loop of \<^verbatim>\<open>findNearestNmi\<close> (\<^verbatim>\<open>App.tsx\<close>) over the remaining entries, with
  the loop variables \<^verbatim>\<open>minDist\<close> and \<^verbatim>\<open>nearestNmi\<close> as arguments; the function
  starts it at \<^verbatim>\<open>Number.POSITIVE_INFINITY\<close> and \<^verbatim>\<open>null\<close>.
\<close>

fun findNearestNmi_loop ::
  "NmiGeocode list \<Rightarrow> number \<Rightarrow> number \<Rightarrow> number \<Rightarrow> string option \<Rightarrow> string option" where
  "findNearestNmi_loop [] lat' lng' minDist nearestNmi = nearestNmi"
| "findNearestNmi_loop (entry # rest) lat' lng' minDist nearestNmi =
     (if js_lt (entry_dist entry lat' lng') minDist
      then findNearestNmi_loop rest lat' lng' (entry_dist entry lat' lng') (Some (nmi entry))
      else findNearestNmi_loop rest lat' lng' minDist nearestNmi)"

definition findNearestNmi_in :: "NmiGeocode list \<Rightarrow> number \<Rightarrow> number \<Rightarrow> string option" where
  "findNearestNmi_in directory lat' lng' = findNearestNmi_loop directory lat' lng' PosInf None"

definition findNearestNmi :: "number \<Rightarrow> number \<Rightarrow> string option" where
  "findNearestNmi lat' lng' = findNearestNmi_in mockNmiData lat' lng'"

text \<open>
  The loop at the head of \<^verbatim>\<open>fetchNearestNmi\<close> (\<^verbatim>\<open>MapWithNmi.tsx\<close>), which keeps the
  whole entry in \<^verbatim>\<open>nearest\<close>.
\<close>

fun nearest_loop ::
  "NmiGeocode list \<Rightarrow> number \<Rightarrow> number \<Rightarrow> number \<Rightarrow> NmiGeocode option \<Rightarrow> NmiGeocode option" where
  "nearest_loop [] lat' lng' minDist nearest = nearest"
| "nearest_loop (c # rest) lat' lng' minDist nearest =
     (if js_lt (entry_dist c lat' lng') minDist
      then nearest_loop rest lat' lng' (entry_dist c lat' lng') (Some c)
      else nearest_loop rest lat' lng' minDist nearest)"

definition nearest_in :: "NmiGeocode list \<Rightarrow> number \<Rightarrow> number \<Rightarrow> NmiGeocode option" where
  "nearest_in directory lat' lng' = nearest_loop directory lat' lng' PosInf None"

definition nearest_marker :: "number \<Rightarrow> number \<Rightarrow> NmiGeocode option" where
  "nearest_marker lat' lng' = nearest_in nmiMarkers lat' lng'"




definition coordinate_limit :: real where
  "coordinate_limit = 10 ^ 150"

definition moderate :: "number \<Rightarrow> bool" where
  "moderate x = (case x of Finite r \<Rightarrow> \<bar>r\<bar> \<le> coordinate_limit | _ \<Rightarrow> False)"

section \<open>The lookup service\<close>

text \<open>
  Both directories of the API routes are object literals indexed with a string taken from
  the request: \<^verbatim>\<open>mockAddressData[nmi]\<close>, \<^verbatim>\<open>nmiGeocodeData[nmi]\<close>. Property lookup
  on an object literal finds its own properties first and then the members it inherits
  from \<^verbatim>\<open>Object.prototype\<close>, which are functions, or for \<^verbatim>\<open>__proto__\<close> the prototype
  object itself; any other name gives \<^verbatim>\<open>undefined\<close>.
\<close>

datatype 'a property = Undefined | Own 'a | Inherited string

definition Object_prototype_names :: "string list" where
  "Object_prototype_names =
    [''constructor'', ''__defineGetter__'', ''__defineSetter__'', ''hasOwnProperty'',
     ''__lookupGetter__'', ''__lookupSetter__'', ''isPrototypeOf'', ''propertyIsEnumerable'',
     ''toString'', ''valueOf'', ''__proto__'', ''toLocaleString'']"

definition get_property :: "(string \<times> 'a) list \<Rightarrow> string \<Rightarrow> 'a property" where
  "get_property own key =
     (case map_of own key of
        Some v \<Rightarrow> Own v
      | None \<Rightarrow> if key \<in> set Object_prototype_names then Inherited key else Undefined)"

text \<open>\<^verbatim>\<open>mockAddressData\<close>, the same literal in \<^verbatim>\<open>App.tsx\<close> and in the address route.\<close>

definition mockAddressData :: "(string \<times> string) list" where
  "mockAddressData =
    [(''NMI001'', ''1 Market St, Sydney NSW 2000, Australia''),
     (''NMI002'', ''123 Collins St, Melbourne VIC 3000, Australia''),
     (''NMI003'', ''456 Queen St, Brisbane QLD 4000, Australia'')]"

definition nmiGeocodeData :: "(string \<times> LatLng) list" where
  "nmiGeocodeData =
    [(''NMI001'', \<lparr>lat = fl (-33.8708), lng = fl 151.2073\<rparr>),
     (''NMI002'', \<lparr>lat = fl (-37.8136), lng = fl 144.9631\<rparr>),
     (''NMI003'', \<lparr>lat = fl (-27.4698), lng = fl 153.0251\<rparr>)]"

text \<open>
  \<^verbatim>\<open>req.query.nmi\<close> has type \<^verbatim>\<open>string | string[] | undefined\<close>. A response is the status
  given to \<^verbatim>\<open>res.status\<close> and the value given to \<^verbatim>\<open>res.json\<close>, as it is serialised:
  \<^verbatim>\<open>JSON.stringify\<close> leaves out a member whose value is a function and writes
  \<^verbatim>\<open>Object.prototype\<close> as \<^verbatim>\<open>{}\<close>; spreading either adds no member.
\<close>

datatype query_value = Absent | Single string | Multiple "string list"

datatype json_value = JString string | JNumber number | JObject "(string \<times> json_value) list"

record response =
  status :: nat
  body :: json_value

definition addressfinder_handler :: "query_value \<Rightarrow> response" where
  "addressfinder_handler q =
     (case q of
        Single nmi' \<Rightarrow>
          (case get_property mockAddressData nmi' of
             Undefined \<Rightarrow> \<lparr>status = 404, body = JObject [(''error'', JString ''NMI not found'')]\<rparr>
           | Own address' \<Rightarrow>
               if address' = '''' then
                 \<lparr>status = 404, body = JObject [(''error'', JString ''NMI not found'')]\<rparr>
               else
                 \<lparr>status = 200,
                  body = JObject [(''nmi'', JString nmi'), (''address'', JString address')]\<rparr>
           | Inherited name \<Rightarrow>
               \<lparr>status = 200,
                body = JObject ((''nmi'', JString nmi') #
                         (if name = ''__proto__'' then [(''address'', JObject [])] else []))\<rparr>)
      | _ \<Rightarrow> \<lparr>status = 400, body = JObject [(''error'', JString ''Missing or invalid NMI'')]\<rparr>)"

definition geocode_handler :: "query_value \<Rightarrow> response" where
  "geocode_handler q =
     (case q of
        Single nmi' \<Rightarrow>
          (case get_property nmiGeocodeData nmi' of
             Undefined \<Rightarrow> \<lparr>status = 404, body = JObject [(''error'', JString ''NMI not found'')]\<rparr>
           | Own geocode \<Rightarrow>
               \<lparr>status = 200,
                body = JObject [(''nmi'', JString nmi'), (''lat'', JNumber (lat geocode)),
                                (''lng'', JNumber (lng geocode))]\<rparr>
           | Inherited name \<Rightarrow> \<lparr>status = 200, body = JObject [(''nmi'', JString nmi')]\<rparr>)
      | _ \<Rightarrow> \<lparr>status = 400, body = JObject [(''error'', JString ''Missing or invalid NMI'')]\<rparr>)"

section \<open>The external collaborators\<close>

text \<open>
  An awaited promise either rejects (the \<^verbatim>\<open>await\<close> throws) or is fulfilled with a value.
  A \<^verbatim>\<open>fetch\<close> that is fulfilled gives a response with its \<^verbatim>\<open>ok\<close> flag and the promise
  of \<^verbatim>\<open>res.json()\<close>, whose value has the type the source declares for it. The URL a
  request is sent to is represented by what the source puts into it: the identifier, the
  coordinate pair or the address.
\<close>

datatype 'a promise = Rejected | Fulfilled 'a

record 'a fetch_response =
  ok :: bool
  json :: "'a promise"

text \<open>
  The part of a Google Geocoding answer the source reads: \<^verbatim>\<open>data.results\<close>, which may be
  missing, and of its first element \<^verbatim>\<open>formatted_address\<close> and \<^verbatim>\<open>geometry.location\<close>.
\<close>

record geocode_result =
  formatted_address :: string
  location :: LatLng

record geocode_data =
  results :: "geocode_result list option"

record network =
  fetch_api_geocode :: "string \<Rightarrow> NmiGeocode option fetch_response promise"
  fetch_google_latlng :: "number \<Rightarrow> number \<Rightarrow> geocode_data fetch_response promise"
  fetch_google_address :: "string \<Rightarrow> geocode_data fetch_response promise"

definition fetchNearestNmi :: "network \<Rightarrow> number \<Rightarrow> number \<Rightarrow> NmiGeocode option promise" where
  "fetchNearestNmi net lat' lng' =
     (case nearest_marker lat' lng' of
        None \<Rightarrow> Fulfilled None
      | Some nearest \<Rightarrow>
          (case fetch_api_geocode net (nmi nearest) of
             Rejected \<Rightarrow> Rejected
           | Fulfilled res \<Rightarrow> if \<not> ok res then Fulfilled None else json res))"

definition fetchAddressFromCoords :: "network \<Rightarrow> number \<Rightarrow> number \<Rightarrow> string promise" where
  "fetchAddressFromCoords net lat' lng' =
     (case fetch_google_latlng net lat' lng' of
        Rejected \<Rightarrow> Rejected
      | Fulfilled res \<Rightarrow>
          if \<not> ok res then Fulfilled ''''
          else (case json res of
                  Rejected \<Rightarrow> Rejected
                | Fulfilled data \<Rightarrow>
                    (case results data of
                       Some (r # _) \<Rightarrow> Fulfilled (formatted_address r)
                     | _ \<Rightarrow> Fulfilled '''')))"

definition fetchLatLngFromAddress :: "network \<Rightarrow> string \<Rightarrow> LatLng option promise" where
  "fetchLatLngFromAddress net address' =
     (case fetch_google_address net address' of
        Rejected \<Rightarrow> Rejected
      | Fulfilled res \<Rightarrow>
          if \<not> ok res then Fulfilled None
          else (case json res of
                  Rejected \<Rightarrow> Rejected
                | Fulfilled data \<Rightarrow>
                    (case results data of
                       Some (r # _) \<Rightarrow>
                         Fulfilled (Some \<lparr>lat = lat (location r), lng = lng (location r)\<rparr>)
                     | _ \<Rightarrow> Fulfilled None)))"

section \<open>The selection controller of \<^verbatim>\<open>MapWithNmi.tsx\<close>\<close>

text \<open>
  The four \<^verbatim>\<open>useState\<close> cells both components have, and the two \<^verbatim>\<open>MapWithNmi\<close> adds.
  A state setter is a record update.
\<close>

record App_state =
  selectedPosition :: "LatLng option"
  selectedNmi :: "string option"
  address :: string
  confirmedAddress :: string

record MapWithNmi_state = App_state +
  loading :: bool
  error :: string

definition initial_state :: MapWithNmi_state where
  "initial_state =
     \<lparr>selectedPosition = None, selectedNmi = None, address = '''', confirmedAddress = '''',
      loading = False, error = ''''\<rparr>"

text \<open>
  \<^verbatim>\<open>handleMapClick\<close> in three parts, cut at its two \<^verbatim>\<open>await\<close>s: the six setters it
  calls before the first, what it does once \<^verbatim>\<open>fetchNearestNmi\<close> has settled, and what it
  does once \<^verbatim>\<open>fetchAddressFromCoords\<close> has settled. The \<^verbatim>\<open>catch\<close> block sets the error
  and the \<^verbatim>\<open>finally\<close> block clears \<^verbatim>\<open>loading\<close> wherever the function ends.
\<close>

definition handleMapClick_begin :: "number \<Rightarrow> number \<Rightarrow> MapWithNmi_state \<Rightarrow> MapWithNmi_state" where
  "handleMapClick_begin lat' lng' s =
     s\<lparr>loading := True, error := '''', selectedPosition := Some \<lparr>lat = lat', lng = lng'\<rparr>,
       selectedNmi := None, address := '''', confirmedAddress := ''''\<rparr>"

definition awaits_address :: "NmiGeocode option promise \<Rightarrow> bool" where
  "awaits_address r = (case r of Fulfilled (Some nmiGeocode) \<Rightarrow> nmi nmiGeocode \<noteq> '''' | _ \<Rightarrow> False)"

definition handleMapClick_nearest_settled ::
  "NmiGeocode option promise \<Rightarrow> MapWithNmi_state \<Rightarrow> MapWithNmi_state" where
  "handleMapClick_nearest_settled r s =
     (case r of
        Rejected \<Rightarrow> s\<lparr>error := ''Failed to fetch NMI or address'', loading := False\<rparr>
      | Fulfilled None \<Rightarrow> s\<lparr>selectedNmi := None, address := '''', loading := False\<rparr>
      | Fulfilled (Some nmiGeocode) \<Rightarrow>
          if nmi nmiGeocode \<noteq> '''' then s\<lparr>selectedNmi := Some (nmi nmiGeocode)\<rparr>
          else s\<lparr>selectedNmi := None, address := '''', loading := False\<rparr>)"

definition handleMapClick_address_settled ::
  "string promise \<Rightarrow> MapWithNmi_state \<Rightarrow> MapWithNmi_state" where
  "handleMapClick_address_settled r s =
     (case r of
        Rejected \<Rightarrow> s\<lparr>error := ''Failed to fetch NMI or address'', loading := False\<rparr>
      | Fulfilled addr \<Rightarrow> s\<lparr>address := addr, loading := False\<rparr>)"

text \<open>The whole of \<^verbatim>\<open>handleMapClick\<close>, when nothing else happens in between.\<close>

definition handleMapClick ::
  "network \<Rightarrow> number \<Rightarrow> number \<Rightarrow> MapWithNmi_state \<Rightarrow> MapWithNmi_state" where
  "handleMapClick net lat' lng' s =
     (let s1 = handleMapClick_begin lat' lng' s;
          nmiGeocode = fetchNearestNmi net lat' lng';
          s2 = handleMapClick_nearest_settled nmiGeocode s1
      in if awaits_address nmiGeocode
         then handleMapClick_address_settled (fetchAddressFromCoords net lat' lng') s2
         else s2)"

text \<open>
  \<^verbatim>\<open>handleUseCurrentLocation\<close>: the state it leaves and the options of the one
  \<^verbatim>\<open>getCurrentPosition\<close> request it makes, if it makes one. The argument says whether
  \<^verbatim>\<open>navigator.geolocation\<close> is there. The success callback is \<^verbatim>\<open>handleMapClick\<close> at the
  coordinates of the fix; the error callback ignores its argument.
\<close>

record PositionOptions =
  enableHighAccuracy :: bool
  timeout :: nat

datatype GeolocationPositionError = PERMISSION_DENIED | POSITION_UNAVAILABLE | TIMEOUT

definition handleUseCurrentLocation ::
  "bool \<Rightarrow> MapWithNmi_state \<Rightarrow> MapWithNmi_state \<times> PositionOptions option" where
  "handleUseCurrentLocation has_geolocation s =
     (if \<not> has_geolocation
      then (s\<lparr>error := ''Geolocation is not supported by your browser.''\<rparr>, None)
      else (s\<lparr>loading := True, error := ''''\<rparr>,
            Some \<lparr>enableHighAccuracy = True, timeout = 10000\<rparr>))"

definition position_error_callback ::
  "GeolocationPositionError \<Rightarrow> MapWithNmi_state \<Rightarrow> MapWithNmi_state" where
  "position_error_callback geoError s =
     s\<lparr>loading := False,
       error := ''Unable to retrieve your location. Please allow location access and try again.''\<rparr>"

text \<open>
  The device's answer to the request, and the whole of a "use current location" from the
  click to the end of the callback.
\<close>

datatype device_answer = Position number number | Failure GeolocationPositionError

definition use_current_location ::
  "network \<Rightarrow> device_answer option \<Rightarrow> MapWithNmi_state \<Rightarrow> MapWithNmi_state" where
  "use_current_location net device s =
     (case device of
        None \<Rightarrow> fst (handleUseCurrentLocation False s)
      | Some (Position latitude longitude) \<Rightarrow>
          handleMapClick net latitude longitude (fst (handleUseCurrentLocation True s))
      | Some (Failure geoError) \<Rightarrow>
          position_error_callback geoError (fst (handleUseCurrentLocation True s)))"

text \<open>
  \<^verbatim>\<open>handleConfirm\<close>: the setter before the \<^verbatim>\<open>await\<close>, and what follows once
  \<^verbatim>\<open>fetchLatLngFromAddress\<close> has settled; the \<^verbatim>\<open>catch\<close> block is empty.
\<close>

definition handleConfirm_begin :: "MapWithNmi_state \<Rightarrow> MapWithNmi_state" where
  "handleConfirm_begin s = s\<lparr>confirmedAddress := address s\<rparr>"

definition handleConfirm_settled :: "LatLng option promise \<Rightarrow> MapWithNmi_state \<Rightarrow> MapWithNmi_state" where
  "handleConfirm_settled r s =
     (case r of
        Rejected \<Rightarrow> s
      | Fulfilled None \<Rightarrow> s
      | Fulfilled (Some coords) \<Rightarrow> s\<lparr>selectedPosition := Some coords\<rparr>)"

definition handleConfirm :: "network \<Rightarrow> MapWithNmi_state \<Rightarrow> MapWithNmi_state" where
  "handleConfirm net s =
     handleConfirm_settled (fetchLatLngFromAddress net (address s)) (handleConfirm_begin s)"

text \<open>
  The "Selection Details" panel: \<^verbatim>\<open>loading ? ... : error ? ... : selectedNmi ? ... : ...\<close>.
  The details show the identifier, the address editor fed with \<^verbatim>\<open>address\<close>, the confirm
  button with its \<^verbatim>\<open>disabled\<close> attribute, and the banner of a confirmed address; in
  \<^verbatim>\<open>MapWithNmi\<close> also the location button, \<^verbatim>\<open>disabled={loading}\<close>.
\<close>

record details =
  shown_nmi :: string
  initialAddress :: string
  confirm_disabled :: bool
  confirmed_banner :: "string option"

definition details_of :: "string \<Rightarrow> 'a App_state_scheme \<Rightarrow> details" where
  "details_of nmi' s =
     \<lparr>shown_nmi = nmi', initialAddress = address s,
      confirm_disabled = (address s = '''' \<or> address s = confirmedAddress s),
      confirmed_banner = (if confirmedAddress s \<noteq> '''' then Some (confirmedAddress s) else None)\<rparr>"

datatype panel = LoadingPanel | ErrorPanel string | DetailsPanel details bool | PromptPanel

definition render_panel :: "MapWithNmi_state \<Rightarrow> panel" where
  "render_panel s =
     (if loading s then LoadingPanel
      else if error s \<noteq> '''' then ErrorPanel (error s)
      else case selectedNmi s of
             Some n \<Rightarrow> if n \<noteq> '''' then DetailsPanel (details_of n s) (loading s) else PromptPanel
           | None \<Rightarrow> PromptPanel)"

text \<open>
  What the user can do on the panel. A button that is not rendered or is disabled does not
  call its handler; the address editor calls \<^verbatim>\<open>setAddress\<close> with the text it holds.
\<close>

definition confirm_enabled :: "MapWithNmi_state \<Rightarrow> bool" where
  "confirm_enabled s =
     (case render_panel s of DetailsPanel d _ \<Rightarrow> \<not> confirm_disabled d | _ \<Rightarrow> False)"

definition click_confirm :: "MapWithNmi_state \<Rightarrow> MapWithNmi_state" where
  "click_confirm s = (if confirm_enabled s then handleConfirm_begin s else s)"

definition click_use_current_location :: "bool \<Rightarrow> MapWithNmi_state \<Rightarrow> MapWithNmi_state" where
  "click_use_current_location has_geolocation s =
     (case render_panel s of
        DetailsPanel _ disabled \<Rightarrow>
          if disabled then s else fst (handleUseCurrentLocation has_geolocation s)
      | _ \<Rightarrow> s)"

definition onAddressChange :: "string \<Rightarrow> MapWithNmi_state \<Rightarrow> MapWithNmi_state" where
  "onAddressChange a s = (case render_panel s of DetailsPanel _ _ \<Rightarrow> s\<lparr>address := a\<rparr> | _ \<Rightarrow> s)"

text \<open>
  The events of the component, one per callback and per settled \<^verbatim>\<open>await\<close>, and the state
  after each. Nothing orders the settling of requests that overlap, so a run is any list
  of events.
\<close>

datatype event =
    MapClick number number
  | MarkerClick NmiGeocode
  | PositionFix number number
  | PositionFailure GeolocationPositionError
  | UseCurrentLocationClick bool
  | NearestSettled "NmiGeocode option promise"
  | AddressSettled "string promise"
  | AddressChange string
  | ConfirmClick
  | LatLngSettled "LatLng option promise"

fun step :: "event \<Rightarrow> MapWithNmi_state \<Rightarrow> MapWithNmi_state" where
  "step (MapClick lat' lng') s = handleMapClick_begin lat' lng' s"
| "step (MarkerClick marker) s = handleMapClick_begin (lat marker) (lng marker) s"
| "step (PositionFix latitude longitude) s = handleMapClick_begin latitude longitude s"
| "step (PositionFailure geoError) s = position_error_callback geoError s"
| "step (UseCurrentLocationClick has_geolocation) s = click_use_current_location has_geolocation s"
| "step (NearestSettled r) s = handleMapClick_nearest_settled r s"
| "step (AddressSettled r) s = handleMapClick_address_settled r s"
| "step (AddressChange a) s = onAddressChange a s"
| "step ConfirmClick s = click_confirm s"
| "step (LatLngSettled r) s = handleConfirm_settled r s"

fun run :: "event list \<Rightarrow> MapWithNmi_state \<Rightarrow> MapWithNmi_state" where
  "run [] s = s"
| "run (e # es) s = run es (step e s)"

fun selection_coordinate :: "event \<Rightarrow> LatLng option" where
  "selection_coordinate (MapClick lat' lng') = Some \<lparr>lat = lat', lng = lng'\<rparr>"
| "selection_coordinate (MarkerClick marker) = Some \<lparr>lat = lat marker, lng = lng marker\<rparr>"
| "selection_coordinate (PositionFix latitude longitude) = Some \<lparr>lat = latitude, lng = longitude\<rparr>"
| "selection_coordinate _ = None"

section \<open>The selection controller of \<^verbatim>\<open>App.tsx\<close>\<close>

text \<open>
  \<^verbatim>\<open>handleMapClick\<close> of \<^verbatim>\<open>App.tsx\<close> is synchronous and takes the address from
  \<^verbatim>\<open>mockAddressData\<close>. The cell \<^verbatim>\<open>address\<close> holds a string; the result is \<open>None\<close> where
  the lookup would put an inherited member there instead.
\<close>

definition App_handleMapClick :: "number \<Rightarrow> number \<Rightarrow> App_state \<Rightarrow> App_state option" where
  "App_handleMapClick lat' lng' s =
     (let s1 = s\<lparr>selectedPosition := Some \<lparr>lat = lat', lng = lng'\<rparr>\<rparr>;
          nmi' = findNearestNmi lat' lng';
          s2 = s1\<lparr>selectedNmi := nmi'\<rparr>;
          cleared = s2\<lparr>address := '''', confirmedAddress := ''''\<rparr>
      in case nmi' of
           None \<Rightarrow> Some cleared
         | Some k \<Rightarrow>
             if k = '''' then Some cleared
             else (case get_property mockAddressData k of
                     Undefined \<Rightarrow> Some cleared
                   | Own a \<Rightarrow>
                       if a \<noteq> '''' then Some (s2\<lparr>address := a, confirmedAddress := ''''\<rparr>)
                       else Some cleared
                   | Inherited _ \<Rightarrow> None))"

definition App_handleConfirm :: "App_state \<Rightarrow> App_state" where
  "App_handleConfirm s = s\<lparr>confirmedAddress := address s\<rparr>"

definition App_render_panel :: "App_state \<Rightarrow> details option" where
  "App_render_panel s =
     (case selectedNmi s of
        Some n \<Rightarrow> if n \<noteq> '''' then Some (details_of n s) else None
      | None \<Rightarrow> None)"

definition App_click_confirm :: "App_state \<Rightarrow> App_state" where
  "App_click_confirm s =
     (case App_render_panel s of
        Some d \<Rightarrow> if confirm_disabled d then s else App_handleConfirm s
      | None \<Rightarrow> s)"

section \<open>Sample collaborators\<close>

text \<open>
  Two networks to run the controller on. In \<open>offline\<close> every request rejects. In
  \<open>sample_network\<close> the route \<^verbatim>\<open>/api/geocode\<close> is answered by \<open>geocode_handler\<close>, the
  reverse geocoder knows one address at every coordinate, and the forward geocoder places
  every address at one coordinate.
\<close>

fun as_NmiGeocode :: "json_value \<Rightarrow> NmiGeocode option" where
  "as_NmiGeocode (JObject [(k1, JString n), (k2, JNumber a), (k3, JNumber b)]) =
     (if k1 = ''nmi'' \<and> k2 = ''lat'' \<and> k3 = ''lng'' then Some \<lparr>lat = a, lng = b, nmi = n\<rparr>
      else None)"
| "as_NmiGeocode _ = None"

definition served_api_geocode :: "string \<Rightarrow> NmiGeocode option fetch_response promise" where
  "served_api_geocode n =
     (let res = geocode_handler (Single n)
      in Fulfilled \<lparr>ok = (200 \<le> status res \<and> status res < 300),
                    json = Fulfilled (as_NmiGeocode (body res))\<rparr>)"

definition offline :: network where
  "offline =
     \<lparr>fetch_api_geocode = (\<lambda>n. Rejected),
      fetch_google_latlng = (\<lambda>lat' lng'. Rejected),
      fetch_google_address = (\<lambda>a. Rejected)\<rparr>"

definition sample_network :: network where
  "sample_network =
     \<lparr>fetch_api_geocode = served_api_geocode,
      fetch_google_latlng = (\<lambda>lat' lng'.
        Fulfilled \<lparr>ok = True,
                   json = Fulfilled \<lparr>results = Some
                     [\<lparr>formatted_address = ''2 Market St, Sydney NSW 2000, Australia'',
                       location = \<lparr>lat = lat', lng = lng'\<rparr>\<rparr>]\<rparr>\<rparr>),
      fetch_google_address = (\<lambda>a.
        Fulfilled \<lparr>ok = True,
                   json = Fulfilled \<lparr>results = Some
                     [\<lparr>formatted_address = a,
                       location = \<lparr>lat = Finite (-33.875), lng = Finite 151.25\<rparr>\<rparr>]\<rparr>\<rparr>)\<rparr>"

text \<open>
  Two states to run it on: an NMI resolved and its address confirmed, and the same with
  the address not confirmed yet.
\<close>

definition confirmed_sydney :: MapWithNmi_state where
  "confirmed_sydney =
     \<lparr>selectedPosition = Some \<lparr>lat = Finite (-33.875), lng = Finite 151.25\<rparr>,
      selectedNmi = Some ''NMI001'', address = ''1 Market St'', confirmedAddress = ''1 Market St'',
      loading = False, error = ''''\<rparr>"

definition resolved_sydney :: MapWithNmi_state where
  "resolved_sydney =
     \<lparr>selectedPosition = Some \<lparr>lat = Finite (-33.875), lng = Finite 151.25\<rparr>,
      selectedNmi = Some ''NMI001'', address = ''1 Market St'', confirmedAddress = '''',
      loading = False, error = ''''\<rparr>"

section \<open>Properties of the number model\<close>






lemma round_half_even_error: "\<bar>of_int (round_half_even q) - q\<bar> \<le> 1 / 2"
  unfolding round_half_even_def Let_def by (auto simp: abs_le_iff)

lemma round_half_even_nonneg: "0 \<le> q \<Longrightarrow> 0 \<le> round_half_even q"
  unfolding round_half_even_def Let_def by (auto simp: zero_le_floor) 

lemma round_half_even_unique:
  assumes "\<bar>q - of_int m\<bar> < 1 / 2"
  shows "round_half_even q = m"
proof -
  have "\<bar>of_int (round_half_even q) - q\<bar> \<le> 1 / 2"
    by (rule round_half_even_error)
  with assms have "\<bar>(of_int (round_half_even q) :: real) - of_int m\<bar> < 1"
    by linarith
  then have "\<bar>round_half_even q - m\<bar> < 1"
    by (metis of_int_diff of_int_abs of_int_less_1_iff)
  then show ?thesis by linarith
qed

lemma ulp_pos: "0 < ulp x"
  by (simp add: ulp_def)

lemma two_powr_int_diff: "(2::real) powr (of_int k - 52) = 2 powr of_int k / 2 ^ 52"
proof -
  have "(2::real) powr (of_int k - 52) = 2 powr of_int k / 2 powr 52"
    by (rule powr_diff)
  moreover have "(2::real) powr 52 = 2 ^ 52"
    by (rule powr_numeral) simp
  ultimately show ?thesis by simp
qed

lemma floor_log_powr_le:
  assumes "x \<noteq> 0"
  shows "2 powr of_int \<lfloor>log 2 \<bar>x\<bar>\<rfloor> \<le> \<bar>x\<bar>"
proof -
  have "of_int \<lfloor>log 2 \<bar>x\<bar>\<rfloor> \<le> log 2 \<bar>x\<bar>"
    by simp
  then have "2 powr of_int \<lfloor>log 2 \<bar>x\<bar>\<rfloor> \<le> 2 powr log 2 \<bar>x\<bar>"
    by (simp only: powr_le_cancel_iff)
  also have "\<dots> = \<bar>x\<bar>"
    using assms by simp
  finally show ?thesis .
qed

lemma ulp_le:
  assumes "x \<noteq> 0"
  shows "ulp x \<le> \<bar>x\<bar> / 2 ^ 52 + 2 powr (- 1074)"
proof (cases "\<lfloor>log 2 \<bar>x\<bar>\<rfloor> - 52 \<le> - 1074")
  case True
  then have "ulp_exponent x = - 1074"
    by (simp add: ulp_exponent_def)
  then show ?thesis by (simp add: ulp_def)
next
  case False
  then have e: "ulp_exponent x = \<lfloor>log 2 \<bar>x\<bar>\<rfloor> - 52"
    by (simp add: ulp_exponent_def)
  have "ulp x = 2 powr of_int \<lfloor>log 2 \<bar>x\<bar>\<rfloor> / 2 ^ 52"
    unfolding ulp_def e by (simp add: two_powr_int_diff)
  then have "ulp x \<le> \<bar>x\<bar> / 2 ^ 52"
    using floor_log_powr_le [OF assms] by (simp add: divide_right_mono)
  moreover have "(0::real) \<le> 2 powr (- 1074)"
    by simp
  ultimately show ?thesis by linarith
qed

lemma round64_zero: "round64 0 = 0"
  by (simp add: round64_def)

lemma round64_nonneg: "0 \<le> x \<Longrightarrow> 0 \<le> round64 x"
  using ulp_pos [of x] by (simp add: round64_def round_half_even_nonneg less_imp_le)

lemma round64_near: "\<bar>round64 x - x\<bar> \<le> ulp x / 2"
proof (cases "x = 0")
  case True
  then show ?thesis using ulp_pos [of x] by (simp add: round64_def)
next
  case False
  have p: "0 < ulp x" by (rule ulp_pos)
  have "round64 x - x = (of_int (round_half_even (x / ulp x)) - x / ulp x) * ulp x"
    using False p by (simp add: round64_def algebra_simps)
  then have "\<bar>round64 x - x\<bar> = \<bar>of_int (round_half_even (x / ulp x)) - x / ulp x\<bar> * ulp x"
    using p by (simp add: abs_mult)
  also have "\<dots> \<le> 1 / 2 * ulp x"
    using p round_half_even_error [of "x / ulp x"] by (intro mult_right_mono) simp_all
  finally show ?thesis by simp
qed

lemma round64_bound: "\<bar>round64 x\<bar> \<le> 2 * \<bar>x\<bar> + 1"
proof (cases "x = 0")
  case True
  then show ?thesis by (simp add: round64_def)
next
  case False
  have "(2::real) powr (- 1074) \<le> 2 powr 0"
    by (rule powr_mono) simp_all
  then have "(2::real) powr (- 1074) \<le> 1"
    by simp
  moreover have "\<bar>x\<bar> / 2 ^ 52 \<le> \<bar>x\<bar>"
    by (simp add: divide_le_eq)
  ultimately have "ulp x \<le> \<bar>x\<bar> + 1"
    using ulp_le [OF False] by linarith
  then show ?thesis
    using round64_near [of x] by linarith
qed

lemma fl_zero: "fl 0 = Finite 0"
  by (simp add: fl_def round64_zero overflow_bound_def)

lemma fl_in_range: "\<bar>round64 x\<bar> < overflow_bound \<Longrightarrow> fl x = Finite (round64 x)"
  unfolding fl_def by (simp add: abs_less_iff not_le)

lemma fl_bounded:
  assumes "\<bar>x\<bar> \<le> B" and "2 * B + 1 < overflow_bound"
  shows "fl x = Finite (round64 x)" and "\<bar>round64 x\<bar> \<le> 2 * B + 1"
proof -
  show b: "\<bar>round64 x\<bar> \<le> 2 * B + 1"
    using round64_bound [of x] assms(1) by linarith
  then have "\<bar>round64 x\<bar> < overflow_bound"
    using assms(2) by linarith
  then show "fl x = Finite (round64 x)"
    by (rule fl_in_range)
qed

lemma fl_not_NaN: "fl x \<noteq> NaN"
  by (simp add: fl_def)

lemma overflow_bound_pos: "0 < overflow_bound"
  by (simp add: overflow_bound_def)

lemma fl_nonneg: "0 \<le> x \<Longrightarrow> \<not> js_lt (fl x) (Finite 0)"
  using round64_nonneg [of x] overflow_bound_pos by (simp add: fl_def not_less)

section \<open>The distance of an entry\<close>

lemma js_add_NaN_right: "js_add x NaN = NaN"
  by (cases x) simp_all

lemma js_sub_NaN_right: "js_sub x NaN = NaN"
  by (cases x) simp_all

lemma Math_pow_NaN: "Math_pow NaN 2 = NaN"
  by (simp add: Math_pow_def)

lemma entry_dist_NaN: "la = NaN \<or> lo = NaN \<Longrightarrow> entry_dist c la lo = NaN"
  by (auto simp: entry_dist_def js_sub_NaN_right js_add_NaN_right Math_pow_NaN)

lemma Math_sqrt_not_negative: "\<not> js_lt (Math_sqrt v) (Finite 0)"
  by (cases v) (simp_all add: fl_nonneg)

lemma entry_dist_not_negative: "\<not> js_lt (entry_dist c la lo) (Finite 0)"
  by (simp add: entry_dist_def Math_sqrt_not_negative)

lemma entry_dist_self:
  assumes "lat c = Finite a" and "lng c = Finite b"
  shows "entry_dist c (Finite a) (Finite b) = Finite 0"
  using assms by (simp add: entry_dist_def Math_pow_def fl_zero)





lemma moderate_fl:
  assumes "\<bar>x\<bar> \<le> 1000"
  shows "moderate (fl x)" and "\<exists>r. fl x = Finite r"
proof -
  have "2 * (1000::real) + 1 < overflow_bound" by (simp add: overflow_bound_def)
  from fl_bounded [OF assms this] have f: "fl x = Finite (round64 x)" and "\<bar>round64 x\<bar> \<le> 2001"
    by simp_all
  moreover have "(2001::real) \<le> coordinate_limit"
    by (simp add: coordinate_limit_def)
  ultimately show "moderate (fl x)"
    by (simp add: moderate_def)
  show "\<exists>r. fl x = Finite r" using f by blast
qed

section \<open>The two scans\<close>




lemma findNearestNmi_loop_nearest_loop:
  "findNearestNmi_loop cs la lo m (map_option nmi nr) = map_option nmi (nearest_loop cs la lo m nr)"
proof (induction cs arbitrary: m nr)
  case Nil
  show ?case by simp
next
  case (Cons c cs)
  show ?case
  proof (cases "js_lt (entry_dist c la lo) m")
    case True
    then show ?thesis using Cons.IH [of "entry_dist c la lo" "Some c"] by simp
  next
    case False
    then show ?thesis using Cons.IH [of m nr] by simp
  qed
qed

lemma findNearestNmi_in_nearest_in:
  "findNearestNmi_in directory la lo = map_option nmi (nearest_in directory la lo)"
  using findNearestNmi_loop_nearest_loop [of directory la lo PosInf None]
  by (simp add: findNearestNmi_in_def nearest_in_def)

lemma nearest_loop_keeps_Some: "nearest_loop cs la lo m (Some r0) \<noteq> None"
  by (induction cs arbitrary: m r0) simp_all

lemma nearest_loop_None_iff:
  "nearest_loop cs la lo PosInf None = None \<longleftrightarrow> (\<forall>c\<in>set cs. \<not> js_lt (entry_dist c la lo) PosInf)"
  by (induction cs) (simp_all add: nearest_loop_keeps_Some)





text \<open>
  At the coordinates of an entry that entry is at distance 0, and no distance is negative:
  a click on the marker of the first entry selects it.
\<close>

lemma nearest_loop_at_head:
  assumes "lat c = Finite a" and "lng c = Finite b"
  shows "nearest_in (c # cs) (lat c) (lng c) = Some c"
proof -
  have zero: "entry_dist c (lat c) (lng c) = Finite 0"
    using assms entry_dist_self [OF assms] by simp
  have stay: "nearest_loop ds (lat c) (lng c) (Finite 0) (Some c) = Some c" for ds
    by (induction ds) (simp_all add: entry_dist_not_negative)
  show ?thesis
    by (simp add: nearest_in_def zero stay)
qed

lemma nearest_marker_at_first:
  "nearest_marker (fl (-33.8708)) (fl 151.2073) =
     Some \<lparr>lat = fl (-33.8708), lng = fl 151.2073, nmi = ''NMI001''\<rparr>"
proof -
  obtain a b where a: "fl (-33.8708) = Finite a" and b: "fl 151.2073 = Finite b"
    using moderate_fl(2) [of "-33.8708"] moderate_fl(2) [of "151.2073"] by auto
  let ?c = "\<lparr>lat = fl (-33.8708), lng = fl 151.2073, nmi = ''NMI001''\<rparr>"
  have "nearest_in (?c # tl nmiMarkers) (lat ?c) (lng ?c) = Some ?c"
    using a b by (intro nearest_loop_at_head [of ?c a b]) simp_all
  then show ?thesis
    by (simp add: nearest_marker_def nmiMarkers_def)
qed

lemma directories_equal: "mockNmiData = nmiMarkers"
  by (simp add: mockNmiData_def nmiMarkers_def)

section \<open>Evaluating the rounding\<close>

text \<open>
  Computing a rounded result: scale \<open>x\<close> by a power of two so that it falls between \<open>2^52\<close>
  and \<open>2^53\<close>, where the doubles are the integers, and give the nearest integer \<open>m\<close>, the
  even one at a tie.
\<close>

lemma round_half_even_nearest:
  assumes "\<bar>q - of_int m\<bar> < 1 / 2 \<or> (\<bar>q - of_int m\<bar> = 1 / 2 \<and> even m)"
  shows "round_half_even q = m"
proof (cases "\<bar>q - of_int m\<bar> < 1 / 2")
  case True
  then show ?thesis by (rule round_half_even_unique)
next
  case False
  with assms have tie: "\<bar>q - of_int m\<bar> = 1 / 2" and m: "even m"
    by simp_all
  then consider "q = of_int m + 1 / 2" | "q = of_int m - 1 / 2"
    by (auto simp: abs_if split: if_splits) 
  then show ?thesis
  proof cases
    case 1
    then have "\<lfloor>q\<rfloor> = m"
      by (simp add: floor_eq_iff)
    then show ?thesis
      using 1 m by (simp add: round_half_even_def)
  next
    case 2
    then have "\<lfloor>q\<rfloor> = m - 1"
      by (simp add: floor_eq_iff)
    then show ?thesis
      using 2 m by (simp add: round_half_even_def)
  qed
qed

lemma ulp_scaled:
  assumes "2 ^ 52 \<le> \<bar>x\<bar> * 2 ^ s" and "\<bar>x\<bar> * 2 ^ s < 2 ^ 53" and "s \<le> 1074"
  shows "ulp x = 1 / 2 ^ s"
proof -
  have pos: "0 < \<bar>x\<bar>"
  proof (rule ccontr)
    assume "\<not> 0 < \<bar>x\<bar>"
    then have "\<bar>x\<bar> * 2 ^ s = 0" by simp
    with assms(1) show False by simp
  qed
  have ps: "(2::real) powr real s = 2 ^ s"
    by (rule powr_realpow) simp
  have p: "(2::real) powr (52 - real s) = 2 ^ 52 / 2 ^ s"
  proof -
    have "(2::real) powr (52 - real s) = 2 powr 52 / 2 powr real s"
      by (rule powr_diff)
    moreover have "(2::real) powr 52 = 2 ^ 52"
      by (rule powr_numeral) simp
    ultimately show ?thesis using ps by simp
  qed
  have p1: "(2::real) powr (52 - real s + 1) = 2 * (2 ^ 52 / 2 ^ s)"
  proof -
    have "(2::real) powr (52 - real s + 1) = 2 powr (52 - real s) * 2 powr 1"
      by (rule powr_add)
    then show ?thesis using p by simp
  qed
  have cast: "real_of_int (52 - int s) = 52 - real s"
    by simp
  have pw: "(0::real) < 2 ^ s"
    by simp
  have "(2::real) ^ 52 / 2 ^ s \<le> \<bar>x\<bar>"
    using assms(1) pw by (simp only: pos_divide_le_eq)
  then have lower: "(2::real) powr of_int (52 - int s) \<le> \<bar>x\<bar>"
    by (simp only: cast p)
  have "\<bar>x\<bar> < 2 * 2 ^ 52 / 2 ^ s"
    using assms(2) pw by (simp only: pos_less_divide_eq) simp
  then have "\<bar>x\<bar> < (2::real) powr (52 - real s + 1)"
    by (simp only: p1 times_divide_eq_right)
  moreover have "real_of_int (52 - int s + 1) = 52 - real s + 1"
    by simp
  ultimately have upper: "\<bar>x\<bar> < (2::real) powr of_int (52 - int s + 1)"
    by (simp only:)
  have "\<lfloor>log 2 \<bar>x\<bar>\<rfloor> = 52 - int s"
    using pos lower upper by (subst floor_log_eq_powr_iff) simp_all
  then have "ulp_exponent x = - int s"
    using assms(3) by (simp add: ulp_exponent_def)
  then have "ulp x = 2 powr (- real s)"
    by (simp add: ulp_def)
  also have "\<dots> = 1 / 2 powr real s"
    by (simp add: powr_minus_divide)
  also have "\<dots> = 1 / 2 ^ s"
    by (simp add: powr_realpow)
  finally show ?thesis .
qed

lemma fl_scaled:
  assumes "2 ^ 52 \<le> \<bar>x\<bar> * 2 ^ s" and "\<bar>x\<bar> * 2 ^ s < 2 ^ 53" and "s \<le> 1074"
    and "\<bar>x * 2 ^ s - of_int m\<bar> < 1 / 2 \<or> (\<bar>x * 2 ^ s - of_int m\<bar> = 1 / 2 \<and> even m)"
    and "r = of_int m / 2 ^ s"
  shows "fl x = Finite r"
proof -
  have u: "ulp x = 1 / 2 ^ s"
    using assms(1-3) by (rule ulp_scaled)
  have x: "x \<noteq> 0"
    using assms(1) by auto
  have "round_half_even (x * 2 ^ s) = m"
    using assms(4) by (rule round_half_even_nearest)
  then have r: "round64 x = r"
    using x u assms(5) by (simp add: round64_def)
  have "\<bar>of_int m\<bar> \<le> \<bar>x * 2 ^ s\<bar> + 1 / 2"
    using assms(4) by linarith
  then have "\<bar>real_of_int m\<bar> \<le> 2 ^ 53 + 1 / 2"
    using assms(2) by (simp add: abs_mult)
  moreover have "\<bar>r\<bar> \<le> \<bar>real_of_int m\<bar>"
    by (simp add: assms(5) abs_divide divide_le_eq_1 mult_le_cancel_left1 field_simps)
  moreover have "(2 ^ 53 + 1 / 2 :: real) < overflow_bound"
    by (simp add: overflow_bound_def)
  ultimately have "\<bar>round64 x\<bar> < overflow_bound"
    using r by linarith
  then show ?thesis
    using r by (simp add: fl_in_range)
qed

lemma fl_sqrt_scaled:
  assumes "0 \<le> y" and "(2 ^ 52)\<^sup>2 \<le> y * 4 ^ s" and "y * 4 ^ s < (2 ^ 53)\<^sup>2" and "s \<le> 1074"
    and "0 < m" and "(of_int m - 1 / 2)\<^sup>2 < y * 4 ^ s" and "y * 4 ^ s < (of_int m + 1 / 2)\<^sup>2"
    and "r = of_int m / 2 ^ s"
  shows "fl (sqrt y) = Finite r"
proof -
  have q: "sqrt y * 2 ^ s = sqrt (y * 4 ^ s)"
  proof -
    have "(4::real) ^ s = (2 ^ s)\<^sup>2"
      by (simp add: power_mult_distrib [symmetric] power2_eq_square)
    then show ?thesis by (simp add: real_sqrt_mult)
  qed
  have nn: "0 \<le> y * 4 ^ s"
    using assms(1) by simp
  have m: "0 \<le> real_of_int m - 1 / 2"
    using assms(5) by linarith
  have lo: "2 ^ 52 \<le> sqrt (y * 4 ^ s)"
    using assms(2) by (rule real_le_rsqrt)
  have hi: "sqrt (y * 4 ^ s) < 2 ^ 53"
    using assms(3) by (intro real_less_lsqrt) simp_all
  have a: "real_of_int m - 1 / 2 < sqrt (y * 4 ^ s)"
    using assms(6) by (rule real_less_rsqrt)
  have b: "sqrt (y * 4 ^ s) < real_of_int m + 1 / 2"
    using assms(7) m by (intro real_less_lsqrt) simp_all
  have s0: "\<bar>sqrt y\<bar> = sqrt y"
    using assms(1) by simp
  show ?thesis
  proof (rule fl_scaled [where s = s and m = m])
    show "2 ^ 52 \<le> \<bar>sqrt y\<bar> * 2 ^ s" using lo by (simp add: s0 q)
    show "\<bar>sqrt y\<bar> * 2 ^ s < 2 ^ 53" using hi by (simp add: s0 q)
    show "s \<le> 1074" by fact
    have "\<bar>sqrt y * 2 ^ s - of_int m\<bar> < 1 / 2"
      unfolding q using a b by linarith
    then show "\<bar>sqrt y * 2 ^ s - of_int m\<bar> < 1 / 2 \<or> (\<bar>sqrt y * 2 ^ s - of_int m\<bar> = 1 / 2 \<and> even m)"
      by (rule disjI1)
    show "r = of_int m / 2 ^ s" by fact
  qed
qed

text \<open>
  The directory's literals as doubles.
\<close>

lemma literal_m33_8708: "fl (-33.8708) = Finite (- 4766891320585644 / 2 ^ 47)"
  by (rule fl_scaled [where s = 47 and m = "- 4766891320585644"]) (simp_all add: power_divide)

lemma literal_151_2073: "fl 151.2073 = Finite (5320133905747647 / 2 ^ 45)"
  by (rule fl_scaled [where s = 45 and m = "5320133905747647"]) (simp_all add: power_divide)

lemma literal_m37_8136: "fl (-37.8136) = Finite (- 5321791089673031 / 2 ^ 47)"
  by (rule fl_scaled [where s = 47 and m = "- 5321791089673031"]) (simp_all add: power_divide)

lemma literal_144_9631: "fl 144.9631 = Finite (5100435649550562 / 2 ^ 45)"
  by (rule fl_scaled [where s = 45 and m = "5100435649550562"]) (simp_all add: power_divide)

lemma literal_m27_4698: "fl (-27.4698) = Finite (- 7732061315246378 / 2 ^ 48)"
  by (rule fl_scaled [where s = 48 and m = "- 7732061315246378"]) (simp_all add: power_divide)

lemma literal_153_0251: "fl 153.0251 = Finite (5384092057330726 / 2 ^ 45)"
  by (rule fl_scaled [where s = 45 and m = "5384092057330726"]) (simp_all add: power_divide)

lemma entry_dist_NMI001_near_bisector:
  "entry_dist \<lparr>lat = fl (-33.8708), lng = fl 151.2073, nmi = ''NMI001''\<rparr>
     (Finite (- 30)) (Finite (5269066592719771 / 2 ^ 45)) =
   Finite (4654437208653218 / 2 ^ 50)"
proof -
  have dx: "fl ((- 4766891320585644 / 2 ^ 47) - (- 30)) = Finite (- 8716266718812864 / 2 ^ 51)"
    by (rule fl_scaled [where s = 51 and m = "- 8716266718812864"]) (simp_all add: power_divide)
  have dy: "fl ((5320133905747647 / 2 ^ 45) - (5269066592719771 / 2 ^ 45)) = Finite (6536616067568128 / 2 ^ 52)"
    by (rule fl_scaled [where s = 52 and m = "6536616067568128"]) (simp_all add: power_divide)
  have sx: "fl ((- 8716266718812864 / 2 ^ 51)\<^sup>2) = Finite (8434731303795214 / 2 ^ 49)"
    by (rule fl_scaled [where s = 49 and m = "8434731303795214"]) (simp_all add: power_divide)
  have sy: "fl ((6536616067568128 / 2 ^ 52)\<^sup>2) = Finite (4743688732354847 / 2 ^ 51)"
    by (rule fl_scaled [where s = 51 and m = "4743688732354847"]) (simp_all add: power_divide)
  have ss: "fl ((8434731303795214 / 2 ^ 49) + (4743688732354847 / 2 ^ 51)) = Finite (4810326743441963 / 2 ^ 48)"
    by (rule fl_scaled [where s = 48 and m = "4810326743441963"]) (simp_all add: power_divide)
  have d: "fl (sqrt (4810326743441963 / 2 ^ 48)) = Finite (4654437208653218 / 2 ^ 50)"
    by (rule fl_sqrt_scaled [where s = 50 and m = "4654437208653218"]) (simp_all add: power_divide)
  show ?thesis
    using literal_m33_8708 literal_151_2073 dx dy sx sy ss d
    by (simp add: entry_dist_def Math_pow_def)
qed

lemma entry_dist_NMI002_near_bisector:
  "entry_dist \<lparr>lat = fl (-37.8136), lng = fl 144.9631, nmi = ''NMI002''\<rparr>
     (Finite (- 30)) (Finite (5269066592719771 / 2 ^ 45)) =
   Finite (5160230377800036 / 2 ^ 49)"
proof -
  have dx: "fl ((- 5321791089673031 / 2 ^ 47) - (- 30)) = Finite (- 8797331512105528 / 2 ^ 50)"
    by (rule fl_scaled [where s = 50 and m = "- 8797331512105528"]) (simp_all add: power_divide)
  have dy: "fl ((5100435649550562 / 2 ^ 45) - (5269066592719771 / 2 ^ 45)) = Finite (- 5396190181414688 / 2 ^ 50)"
    by (rule fl_scaled [where s = 50 and m = "- 5396190181414688"]) (simp_all add: power_divide)
  have sx: "fl ((- 8797331512105528 / 2 ^ 50)\<^sup>2) = Finite (8592353687873470 / 2 ^ 47)"
    by (rule fl_scaled [where s = 47 and m = "8592353687873470"]) (simp_all add: power_divide)
  have sy: "fl ((- 5396190181414688 / 2 ^ 50)\<^sup>2) = Finite (6465687646172454 / 2 ^ 48)"
    by (rule fl_scaled [where s = 48 and m = "6465687646172454"]) (simp_all add: power_divide)
  have ss: "fl ((8592353687873470 / 2 ^ 47) + (6465687646172454 / 2 ^ 48)) = Finite (5912598755479848 / 2 ^ 46)"
    by (rule fl_scaled [where s = 46 and m = "5912598755479848"]) (simp_all add: power_divide)
  have d: "fl (sqrt (5912598755479848 / 2 ^ 46)) = Finite (5160230377800036 / 2 ^ 49)"
    by (rule fl_sqrt_scaled [where s = 49 and m = "5160230377800036"]) (simp_all add: power_divide)
  show ?thesis
    using literal_m37_8136 literal_144_9631 dx dy sx sy ss d
    by (simp add: entry_dist_def Math_pow_def)
qed

lemma entry_dist_NMI003_near_bisector:
  "entry_dist \<lparr>lat = fl (-27.4698), lng = fl 153.0251, nmi = ''NMI003''\<rparr>
     (Finite (- 30)) (Finite (5269066592719771 / 2 ^ 45)) =
   Finite (4654437208653220 / 2 ^ 50)"
proof -
  have dx: "fl ((- 7732061315246378 / 2 ^ 48) - (- 30)) = Finite (5697503888586416 / 2 ^ 51)"
    by (rule fl_scaled [where s = 51 and m = "5697503888586416"]) (simp_all add: power_divide)
  have dy: "fl ((5384092057330726 / 2 ^ 45) - (5269066592719771 / 2 ^ 45)) = Finite (7361629735101120 / 2 ^ 51)"
    by (rule fl_scaled [where s = 51 and m = "7361629735101120"]) (simp_all add: power_divide)
  have sx: "fl ((5697503888586416 / 2 ^ 51)\<^sup>2) = Finite (7207912169450677 / 2 ^ 50)"
    by (rule fl_scaled [where s = 50 and m = "7207912169450677"]) (simp_all add: power_divide)
  have sy: "fl ((7361629735101120 / 2 ^ 51)\<^sup>2) = Finite (6016697402158598 / 2 ^ 49)"
    by (rule fl_scaled [where s = 49 and m = "6016697402158598"]) (simp_all add: power_divide)
  have ss: "fl ((7207912169450677 / 2 ^ 50) + (6016697402158598 / 2 ^ 49)) = Finite (4810326743441968 / 2 ^ 48)"
    by (rule fl_scaled [where s = 48 and m = "4810326743441968"]) (simp_all add: power_divide)
  have d: "fl (sqrt (4810326743441968 / 2 ^ 48)) = Finite (4654437208653220 / 2 ^ 50)"
    by (rule fl_sqrt_scaled [where s = 50 and m = "4654437208653220"]) (simp_all add: power_divide)
  show ?thesis
    using literal_m27_4698 literal_153_0251 dx dy sx sy ss d
    by (simp add: entry_dist_def Math_pow_def)
qed

text \<open>
  A coordinate where rounding decides, close to the line at equal distance from \<^verbatim>\<open>NMI001\<close>
  and \<^verbatim>\<open>NMI003\<close>: at latitude \<open>-30\<close> and this longitude (about \<open>149.7559\<close>) the computed
  distances of the two are two units in the last place apart, and the scan keeps \<^verbatim>\<open>NMI001\<close>.
  With the literals of the directory read as exact decimals and no rounding, \<^verbatim>\<open>NMI003\<close>
  would be the nearer one.
\<close>

lemma nearest_marker_near_bisector:
  "nearest_marker (Finite (- 30)) (Finite (5269066592719771 / 2 ^ 45)) =
     Some \<lparr>lat = fl (-33.8708), lng = fl 151.2073, nmi = ''NMI001''\<rparr>"
  using entry_dist_NMI001_near_bisector entry_dist_NMI002_near_bisector
    entry_dist_NMI003_near_bisector
  by (simp add: nearest_marker_def nearest_in_def nmiMarkers_def)

lemma findNearestNmi_near_bisector:
  "findNearestNmi (Finite (- 30)) (Finite (5269066592719771 / 2 ^ 45)) = Some ''NMI001''"
  using nearest_marker_near_bisector
  by (simp add: findNearestNmi_def directories_equal findNearestNmi_in_nearest_in
      nearest_marker_def)

lemma unrounded_decimals_near_bisector:
  "sqrt ((- 27.4698 - (- 30))\<^sup>2 + (153.0251 - 5269066592719771 / 2 ^ 45)\<^sup>2) <
   sqrt ((- 33.8708 - (- 30))\<^sup>2 + (151.2073 - 5269066592719771 / 2 ^ 45)\<^sup>2)"
  by (simp add: power2_eq_square)

section \<open>The nearest-NMI resolver\<close>



text \<open>
  C9. When the latitude or the longitude is NaN every computed distance is NaN, no
  comparison with \<^verbatim>\<open>minDist\<close> holds, and both scans return none, whatever the directory;
  \<^verbatim>\<open>fetchNearestNmi\<close> then returns \<^verbatim>\<open>null\<close> without sending a request. The two fixed
  directories are not empty.
\<close>

theorem NaN_input_resolves_none:
  assumes "lat' = NaN \<or> lng' = NaN"
  shows "entry_dist c lat' lng' = NaN \<and> \<not> js_lt (entry_dist c lat' lng') PosInf \<and>
         nearest_in directory lat' lng' = None \<and> findNearestNmi_in directory lat' lng' = None \<and>
         findNearestNmi lat' lng' = None \<and> nearest_marker lat' lng' = None \<and>
         fetchNearestNmi net lat' lng' = Fulfilled None \<and>
         mockNmiData \<noteq> [] \<and> nmiMarkers \<noteq> []"
proof -
  have d: "entry_dist e lat' lng' = NaN" for e
    using assms by (rule entry_dist_NaN)
  then have none: "nearest_in ds lat' lng' = None" for ds
    by (simp add: nearest_in_def nearest_loop_None_iff)
  then have "findNearestNmi_in ds lat' lng' = None" for ds
    by (simp add: findNearestNmi_in_nearest_in)
  then show ?thesis
    using d none
    by (simp add: findNearestNmi_def nearest_marker_def fetchNearestNmi_def mockNmiData_def
        nmiMarkers_def)
qed

theorem NaN_input_resolves_none_witness:
  "findNearestNmi NaN (fl 151.2073) = None \<and> nearest_marker NaN (fl 151.2073) = None \<and>
   fetchNearestNmi sample_network NaN (fl 151.2073) = Fulfilled None \<and> mockNmiData \<noteq> []"
  using NaN_input_resolves_none [of NaN "fl 151.2073"
      "\<lparr>lat = Finite 0, lng = Finite 0, nmi = ''NMI000''\<rparr>" "[]" sample_network]
  by simp

text \<open>
  C10. The two hardcoded directories are equal element by element, and for every input
  \<^verbatim>\<open>findNearestNmi\<close> returns the identifier of the entry the scan of
  \<^verbatim>\<open>fetchNearestNmi\<close> selects, or both select none.
\<close>

theorem nearest_implementations_agree:
  "mockNmiData = nmiMarkers \<and>
   findNearestNmi lat' lng' = map_option nmi (nearest_marker lat' lng')"
  by (simp add: directories_equal findNearestNmi_def nearest_marker_def findNearestNmi_in_nearest_in)

theorem nearest_implementations_agree_witness:
  "findNearestNmi (fl (-33.8708)) (fl 151.2073) = Some ''NMI001'' \<and>
   nearest_marker (fl (-33.8708)) (fl 151.2073) =
     Some \<lparr>lat = fl (-33.8708), lng = fl 151.2073, nmi = ''NMI001''\<rparr>"
  using nearest_marker_at_first
    nearest_implementations_agree [of "fl (-33.8708)" "fl 151.2073"]
  by simp

section \<open>Properties of the lookup service\<close>

lemma handlers_bad_request:
  assumes "\<forall>n. q \<noteq> Single n"
  shows "addressfinder_handler q =
           \<lparr>status = 400, body = JObject [(''error'', JString ''Missing or invalid NMI'')]\<rparr>"
    and "geocode_handler q =
           \<lparr>status = 400, body = JObject [(''error'', JString ''Missing or invalid NMI'')]\<rparr>"
  using assms by (cases q; simp add: addressfinder_handler_def geocode_handler_def)+

lemma handlers_not_found:
  assumes "n \<notin> set Object_prototype_names"
  shows "map_of mockAddressData n = None \<Longrightarrow> addressfinder_handler (Single n) =
           \<lparr>status = 404, body = JObject [(''error'', JString ''NMI not found'')]\<rparr>"
    and "map_of nmiGeocodeData n = None \<Longrightarrow> geocode_handler (Single n) =
           \<lparr>status = 404, body = JObject [(''error'', JString ''NMI not found'')]\<rparr>"
  using assms by (simp_all add: addressfinder_handler_def geocode_handler_def get_property_def)

lemma handlers_found:
  shows "map_of mockAddressData n = Some a \<Longrightarrow> addressfinder_handler (Single n) =
           \<lparr>status = 200, body = JObject [(''nmi'', JString n), (''address'', JString a)]\<rparr>"
    and "map_of nmiGeocodeData n = Some g \<Longrightarrow> geocode_handler (Single n) =
           \<lparr>status = 200, body = JObject [(''nmi'', JString n), (''lat'', JNumber (lat g)),
                                          (''lng'', JNumber (lng g))]\<rparr>"
  by (auto simp: addressfinder_handler_def geocode_handler_def get_property_def
      mockAddressData_def split: if_splits)

lemma geocode_NMI002:
  "geocode_handler (Single ''NMI002'') =
     \<lparr>status = 200, body = JObject [(''nmi'', JString ''NMI002''), (''lat'', JNumber (fl (-37.8136))),
                                    (''lng'', JNumber (fl 144.9631))]\<rparr>"
  by (simp add: geocode_handler_def get_property_def nmiGeocodeData_def)

lemma geocode_UNKNOWN:
  "geocode_handler (Single ''UNKNOWN'') =
     \<lparr>status = 404, body = JObject [(''error'', JString ''NMI not found'')]\<rparr>"
  by (simp add: geocode_handler_def get_property_def nmiGeocodeData_def Object_prototype_names_def)

lemma addressfinder_Absent:
  "addressfinder_handler Absent =
     \<lparr>status = 400, body = JObject [(''error'', JString ''Missing or invalid NMI'')]\<rparr>"
  by (simp add: addressfinder_handler_def)

text \<open>
  C4 at identifiers that name a member of \<^verbatim>\<open>Object.prototype\<close>. The identifier
  \<^verbatim>\<open>constructor\<close> is a key of neither directory, and both routes answer it with status
  200 and a body that holds the identifier alone.
\<close>

theorem handlers_answer_inherited_name:
  "map_of nmiGeocodeData ''constructor'' = None \<and>
   geocode_handler (Single ''constructor'') =
     \<lparr>status = 200, body = JObject [(''nmi'', JString ''constructor'')]\<rparr> \<and>
   map_of mockAddressData ''constructor'' = None \<and>
   addressfinder_handler (Single ''constructor'') =
     \<lparr>status = 200, body = JObject [(''nmi'', JString ''constructor'')]\<rparr>"
  by (simp add: geocode_handler_def addressfinder_handler_def get_property_def nmiGeocodeData_def
      mockAddressData_def Object_prototype_names_def)

lemma status_geocode_200:
  "status (geocode_handler (Single n)) = 200 \<longleftrightarrow>
     n \<in> set (map fst nmiGeocodeData) \<or> n \<in> set Object_prototype_names"
  by (simp add: geocode_handler_def get_property_def nmiGeocodeData_def)

lemma status_addressfinder_200:
  "status (addressfinder_handler (Single n)) = 200 \<longleftrightarrow>
     n \<in> set (map fst mockAddressData) \<or> n \<in> set Object_prototype_names"
  by (simp add: addressfinder_handler_def get_property_def mockAddressData_def)

text \<open>
  C8. Every key of the address directory is a key of the NMI directory of the geocode
  route, and an identifier of \<^verbatim>\<open>mockNmiData\<close>; and whenever the address route answers a
  request with status 200, the geocode route answers the same request with status 200.
\<close>

theorem address_keys_have_geocodes:
  "set (map fst mockAddressData) \<subseteq> set (map fst nmiGeocodeData) \<and>
   set (map fst mockAddressData) \<subseteq> set (map nmi mockNmiData) \<and>
   (status (addressfinder_handler q) = 200 \<longrightarrow> status (geocode_handler q) = 200)"
proof (intro conjI impI)
  show keys: "set (map fst mockAddressData) \<subseteq> set (map fst nmiGeocodeData)"
    by (simp add: mockAddressData_def nmiGeocodeData_def)
  show "set (map fst mockAddressData) \<subseteq> set (map nmi mockNmiData)"
    by (simp add: mockAddressData_def mockNmiData_def)
  assume ok: "status (addressfinder_handler q) = 200"
  show "status (geocode_handler q) = 200"
  proof (cases q)
    case (Single n)
    then show ?thesis
      using ok keys by (auto simp: status_geocode_200 status_addressfinder_200)
  next
    case Absent
    then show ?thesis using ok by (simp add: addressfinder_handler_def)
  next
    case (Multiple ns)
    then show ?thesis using ok by (simp add: addressfinder_handler_def)
  qed
qed

theorem address_keys_have_geocodes_witness:
  "status (addressfinder_handler (Single ''NMI002'')) = 200 \<and>
   status (geocode_handler (Single ''NMI002'')) = 200"
proof -
  have "status (addressfinder_handler (Single ''NMI002'')) = 200"
    by (simp add: addressfinder_handler_def get_property_def mockAddressData_def)
  then show ?thesis
    using address_keys_have_geocodes [of "Single ''NMI002''"] by simp
qed

section \<open>The selection controller\<close>

lemma handleMapClick_begin_eq:
  "handleMapClick_begin la lo s =
     \<lparr>selectedPosition = Some \<lparr>lat = la, lng = lo\<rparr>, selectedNmi = None, address = '''',
      confirmedAddress = '''', loading = True, error = ''''\<rparr>"
  by (simp add: handleMapClick_begin_def)

lemma step_selection:
  "selection_coordinate ev = Some p \<Longrightarrow>
   step ev s = \<lparr>selectedPosition = Some p, selectedNmi = None, address = '''',
                confirmedAddress = '''', loading = True, error = ''''\<rparr>"
  by (cases ev) (auto simp: handleMapClick_begin_eq)

lemma step_keeps_unconfirmed:
  "confirmedAddress s = '''' \<Longrightarrow> ev \<noteq> ConfirmClick \<Longrightarrow> confirmedAddress (step ev s) = ''''"
  by (cases ev)
    (auto simp: handleMapClick_begin_def position_error_callback_def click_use_current_location_def
      handleUseCurrentLocation_def handleMapClick_nearest_settled_def
      handleMapClick_address_settled_def onAddressChange_def handleConfirm_settled_def
      split: panel.splits promise.splits option.splits)

lemma run_keeps_unconfirmed:
  "confirmedAddress s = '''' \<Longrightarrow> ConfirmClick \<notin> set evs \<Longrightarrow> confirmedAddress (run evs s) = ''''"
proof (induction evs arbitrary: s)
  case Nil
  then show ?case by simp
next
  case (Cons e es)
  from Cons.prems have "e \<noteq> ConfirmClick" and rest: "ConfirmClick \<notin> set es"
    by auto
  with Cons.prems(1) have "confirmedAddress (step e s) = ''''"
    by (simp add: step_keeps_unconfirmed)
  then show ?case
    using rest by (simp add: Cons.IH)
qed

lemma handleMapClick_fields:
  "confirmedAddress (handleMapClick net la lo s) = ''''"
  "selectedPosition (handleMapClick net la lo s) = Some \<lparr>lat = la, lng = lo\<rparr>"
  "loading (handleMapClick net la lo s) = False"
  by (auto simp: handleMapClick_def handleMapClick_begin_def handleMapClick_nearest_settled_def
      handleMapClick_address_settled_def awaits_address_def Let_def
      split: promise.splits option.splits)

lemma handleMapClick_ignores_old_state:
  "handleMapClick net la lo s = handleMapClick net la lo s'"
  by (simp add: handleMapClick_def handleMapClick_begin_eq)

lemma nearest_loop_member:
  "nearest_loop cs la lo m nr = Some r \<Longrightarrow> r \<in> set cs \<or> nr = Some r"
  by (induction cs arbitrary: m nr) (auto split: if_splits)

lemma findNearestNmi_loop_member:
  "findNearestNmi_loop cs la lo m nr = Some k \<Longrightarrow> k \<in> nmi ` set cs \<or> nr = Some k"
  by (induction cs arbitrary: m nr) (auto split: if_splits)

lemma findNearestNmi_known:
  "findNearestNmi la lo = Some k \<Longrightarrow> k \<in> {''NMI001'', ''NMI002'', ''NMI003''}"
  using findNearestNmi_loop_member [of mockNmiData la lo PosInf None k]
  by (auto simp: findNearestNmi_def findNearestNmi_in_def mockNmiData_def)

lemma App_handleMapClick_total:
  "\<exists>a. App_handleMapClick la lo t =
     Some \<lparr>selectedPosition = Some \<lparr>lat = la, lng = lo\<rparr>, selectedNmi = findNearestNmi la lo,
           address = a, confirmedAddress = ''''\<rparr>"
proof (cases "findNearestNmi la lo")
  case None
  then show ?thesis by (cases t) (simp add: App_handleMapClick_def)
next
  case (Some k)
  then have "k \<in> {''NMI001'', ''NMI002'', ''NMI003''}"
    by (rule findNearestNmi_known)
  then show ?thesis
    using Some by (cases t) (auto simp: App_handleMapClick_def get_property_def mockAddressData_def)
qed

text \<open>
  C2. A map click, a click on an NMI marker and a position fix each leave, before anything
  is awaited, the state with the new coordinate as position, no NMI, an empty address, an
  empty confirmed address, no error and \<^verbatim>\<open>loading\<close> set, whatever the state was. From
  there the confirmed address stays empty through every run of events without a click on
  the confirm button, and it is empty at the end of \<^verbatim>\<open>handleMapClick\<close>. The handler
  of \<^verbatim>\<open>App.tsx\<close> sets the position and empties the confirmed address in one step.
\<close>

theorem selection_resets_state:
  "(selection_coordinate ev = Some p \<longrightarrow>
      step ev s = \<lparr>selectedPosition = Some p, selectedNmi = None, address = '''',
                   confirmedAddress = '''', loading = True, error = ''''\<rparr> \<and>
      (ConfirmClick \<notin> set evs \<longrightarrow> confirmedAddress (run evs (step ev s)) = '''')) \<and>
   handleMapClick_begin lat' lng' s =
     \<lparr>selectedPosition = Some \<lparr>lat = lat', lng = lng'\<rparr>, selectedNmi = None, address = '''',
      confirmedAddress = '''', loading = True, error = ''''\<rparr> \<and>
   confirmedAddress (handleMapClick net lat' lng' s) = '''' \<and>
   selectedPosition (handleMapClick net lat' lng' s) = Some \<lparr>lat = lat', lng = lng'\<rparr> \<and>
   (\<exists>a. App_handleMapClick lat' lng' t =
      Some \<lparr>selectedPosition = Some \<lparr>lat = lat', lng = lng'\<rparr>,
            selectedNmi = findNearestNmi lat' lng', address = a, confirmedAddress = ''''\<rparr>)"
proof -
  have reset: "step ev s = \<lparr>selectedPosition = Some p, selectedNmi = None, address = '''',
      confirmedAddress = '''', loading = True, error = ''''\<rparr>"
    if "selection_coordinate ev = Some p"
    using that by (rule step_selection)
  have stays: "confirmedAddress (run evs (step ev s)) = ''''"
    if "selection_coordinate ev = Some p" and "ConfirmClick \<notin> set evs"
  proof -
    have "confirmedAddress (step ev s) = ''''"
      using reset [OF that(1)] by simp
    then show ?thesis
      using that(2) by (rule run_keeps_unconfirmed)
  qed
  show ?thesis
    using reset stays handleMapClick_begin_eq [of lat' lng' s]
      handleMapClick_fields(1,2) [of net lat' lng' s] App_handleMapClick_total [of lat' lng' t]
    by blast
qed

theorem selection_resets_state_witness:
  "step (MarkerClick \<lparr>lat = fl (-37.8136), lng = fl 144.9631, nmi = ''NMI002''\<rparr>)
     confirmed_sydney =
     \<lparr>selectedPosition = Some \<lparr>lat = fl (-37.8136), lng = fl 144.9631\<rparr>,
      selectedNmi = None, address = '''', confirmedAddress = '''', loading = True, error = ''''\<rparr> \<and>
   confirmedAddress
     (run [NearestSettled (Fulfilled (Some \<lparr>lat = fl (-37.8136), lng = fl 144.9631,
                                             nmi = ''NMI002''\<rparr>)),
           AddressSettled (Fulfilled ''123 Collins St'')]
        (step (MarkerClick \<lparr>lat = fl (-37.8136), lng = fl 144.9631, nmi = ''NMI002''\<rparr>)
           confirmed_sydney)) = '''' \<and>
   confirmedAddress confirmed_sydney = ''1 Market St''"
proof -
  let ?marker = "\<lparr>lat = fl (-37.8136), lng = fl 144.9631, nmi = ''NMI002''\<rparr>"
  let ?evs = "[NearestSettled (Fulfilled (Some ?marker)), AddressSettled (Fulfilled ''123 Collins St'')]"
  have sel: "selection_coordinate (MarkerClick ?marker) =
      Some \<lparr>lat = fl (-37.8136), lng = fl 144.9631\<rparr>"
    by simp
  have quiet: "ConfirmClick \<notin> set ?evs"
    by simp
  have "step (MarkerClick ?marker) confirmed_sydney =
      \<lparr>selectedPosition = Some \<lparr>lat = fl (-37.8136), lng = fl 144.9631\<rparr>,
       selectedNmi = None, address = [], confirmedAddress = [], loading = True, error = []\<rparr> \<and>
     confirmedAddress (run ?evs (step (MarkerClick ?marker) confirmed_sydney)) = []"
    using sel quiet
      selection_resets_state [of "MarkerClick ?marker"
        "\<lparr>lat = fl (-37.8136), lng = fl 144.9631\<rparr>" confirmed_sydney ?evs
        "Finite 0" "Finite 0" offline
        "\<lparr>selectedPosition = None, selectedNmi = None, address = [], confirmedAddress = []\<rparr>"]
    by blast
  moreover have "confirmedAddress confirmed_sydney = ''1 Market St''"
    by (simp add: confirmed_sydney_def)
  ultimately show ?thesis
    by blast
qed

lemma nearest_marker_member:
  "nearest_marker la lo = Some c \<Longrightarrow> c \<in> set nmiMarkers"
  using nearest_loop_member [of nmiMarkers la lo PosInf None c]
  by (simp add: nearest_marker_def nearest_in_def)

lemma served_api_geocode_marker:
  "c \<in> set nmiMarkers \<Longrightarrow>
   served_api_geocode (nmi c) = Fulfilled \<lparr>ok = True, json = Fulfilled (Some c)\<rparr>"
  by (auto simp: nmiMarkers_def served_api_geocode_def geocode_handler_def get_property_def
      nmiGeocodeData_def)

lemma fetchNearestNmi_served:
  assumes "fetch_api_geocode net = served_api_geocode"
  shows "fetchNearestNmi net la lo = Fulfilled (nearest_marker la lo)"
proof (cases "nearest_marker la lo")
  case None
  then show ?thesis by (simp add: fetchNearestNmi_def)
next
  case (Some c)
  then have "c \<in> set nmiMarkers"
    by (rule nearest_marker_member)
  then have "served_api_geocode (nmi c) = Fulfilled \<lparr>ok = True, json = Fulfilled (Some c)\<rparr>"
    by (rule served_api_geocode_marker)
  then show ?thesis
    using Some assms by (simp add: fetchNearestNmi_def)
qed

lemma App_handleMapClick_resolved:
  assumes "findNearestNmi la lo = Some k"
  shows "\<exists>a. map_of mockAddressData k = Some a \<and>
           App_handleMapClick la lo t =
             Some \<lparr>selectedPosition = Some \<lparr>lat = la, lng = lo\<rparr>, selectedNmi = Some k,
                   address = a, confirmedAddress = ''''\<rparr>"
proof -
  from assms have "k \<in> {''NMI001'', ''NMI002'', ''NMI003''}"
    by (rule findNearestNmi_known)
  then show ?thesis
    using assms by (cases t) (auto simp: App_handleMapClick_def get_property_def mockAddressData_def)
qed

text \<open>
  C3. When \<^verbatim>\<open>fetchNearestNmi\<close> is fulfilled with a record that has an identifier,
  \<^verbatim>\<open>handleMapClick\<close> ends with that identifier as \<^verbatim>\<open>selectedNmi\<close>, \<^verbatim>\<open>loading\<close> cleared
  and the clicked coordinate as position; the address it stores is the string that
  \<^verbatim>\<open>fetchAddressFromCoords\<close> returns for the clicked coordinate, with no error; and if
  that request rejects, the address stays empty and the error is set. The same holds of the
  two events that settle the two requests, taken one after the other. When the route
  \<^verbatim>\<open>/api/geocode\<close> is answered by \<open>geocode_handler\<close>, the record \<^verbatim>\<open>fetchNearestNmi\<close>
  is fulfilled with is the entry its scan selected.
\<close>

theorem resolved_record_is_stored:
  assumes "fetchNearestNmi net lat' lng' = Fulfilled (Some nmiGeocode)"
    and "nmi nmiGeocode \<noteq> ''''"
  shows "selectedNmi (handleMapClick net lat' lng' s) = Some (nmi nmiGeocode) \<and>
         loading (handleMapClick net lat' lng' s) = False \<and>
         selectedPosition (handleMapClick net lat' lng' s) = Some \<lparr>lat = lat', lng = lng'\<rparr> \<and>
         (\<forall>addr. fetchAddressFromCoords net lat' lng' = Fulfilled addr \<longrightarrow>
            handleMapClick net lat' lng' s =
              \<lparr>selectedPosition = Some \<lparr>lat = lat', lng = lng'\<rparr>,
               selectedNmi = Some (nmi nmiGeocode), address = addr, confirmedAddress = '''',
               loading = False, error = ''''\<rparr>) \<and>
         (fetchAddressFromCoords net lat' lng' = Rejected \<longrightarrow>
            address (handleMapClick net lat' lng' s) = '''' \<and>
            error (handleMapClick net lat' lng' s) = ''Failed to fetch NMI or address'') \<and>
         (\<forall>addr. step (AddressSettled (Fulfilled addr))
                   (step (NearestSettled (Fulfilled (Some nmiGeocode))) s) =
                 s\<lparr>selectedNmi := Some (nmi nmiGeocode), address := addr, loading := False\<rparr>) \<and>
         (fetch_api_geocode net = served_api_geocode \<longrightarrow>
            fetchNearestNmi net lat' lng' = Fulfilled (nearest_marker lat' lng'))"
proof -
  have run: "selectedNmi (handleMapClick net lat' lng' s) = Some (nmi nmiGeocode) \<and>
         loading (handleMapClick net lat' lng' s) = False \<and>
         selectedPosition (handleMapClick net lat' lng' s) = Some \<lparr>lat = lat', lng = lng'\<rparr> \<and>
         (\<forall>addr. fetchAddressFromCoords net lat' lng' = Fulfilled addr \<longrightarrow>
            handleMapClick net lat' lng' s =
              \<lparr>selectedPosition = Some \<lparr>lat = lat', lng = lng'\<rparr>,
               selectedNmi = Some (nmi nmiGeocode), address = addr, confirmedAddress = [],
               loading = False, error = []\<rparr>) \<and>
         (fetchAddressFromCoords net lat' lng' = Rejected \<longrightarrow>
            address (handleMapClick net lat' lng' s) = [] \<and>
            error (handleMapClick net lat' lng' s) = ''Failed to fetch NMI or address'') \<and>
         (\<forall>addr. step (AddressSettled (Fulfilled addr))
                   (step (NearestSettled (Fulfilled (Some nmiGeocode))) s) =
                 s\<lparr>selectedNmi := Some (nmi nmiGeocode), address := addr, loading := False\<rparr>)"
    using assms
    by (cases "fetchAddressFromCoords net lat' lng'")
      (simp_all add: handleMapClick_def handleMapClick_begin_def handleMapClick_nearest_settled_def
        handleMapClick_address_settled_def awaits_address_def)
  have served: "fetch_api_geocode net = served_api_geocode \<longrightarrow>
      fetchNearestNmi net lat' lng' = Fulfilled (nearest_marker lat' lng')"
    by (simp add: fetchNearestNmi_served)
  from run served show ?thesis
    by (intro conjI) (elim conjE, assumption)+
qed

lemma fetchNearestNmi_sample:
  "fetchNearestNmi sample_network (fl (-33.8708)) (fl 151.2073) =
     Fulfilled (Some \<lparr>lat = fl (-33.8708), lng = fl 151.2073, nmi = ''NMI001''\<rparr>)"
proof -
  have "nearest_marker (fl (-33.8708)) (fl 151.2073) =
      Some \<lparr>lat = fl (-33.8708), lng = fl 151.2073, nmi = ''NMI001''\<rparr>"
    by (rule nearest_marker_at_first)
  then show ?thesis
    by (simp add: fetchNearestNmi_def sample_network_def served_api_geocode_def geocode_handler_def
        get_property_def nmiGeocodeData_def)
qed

theorem resolved_record_is_stored_witness:
  "fetchNearestNmi sample_network (fl (-33.8708)) (fl 151.2073) =
     Fulfilled (Some \<lparr>lat = fl (-33.8708), lng = fl 151.2073, nmi = ''NMI001''\<rparr>) \<and>
   fetchAddressFromCoords sample_network (fl (-33.8708)) (fl 151.2073) =
     Fulfilled ''2 Market St, Sydney NSW 2000, Australia'' \<and>
   handleMapClick sample_network (fl (-33.8708)) (fl 151.2073) initial_state =
     \<lparr>selectedPosition = Some \<lparr>lat = fl (-33.8708), lng = fl 151.2073\<rparr>,
      selectedNmi = Some ''NMI001'', address = ''2 Market St, Sydney NSW 2000, Australia'',
      confirmedAddress = '''', loading = False, error = ''''\<rparr>"
proof -
  have geo: "fetchAddressFromCoords sample_network (fl (-33.8708)) (fl 151.2073) =
      Fulfilled ''2 Market St, Sydney NSW 2000, Australia''"
    by (simp add: fetchAddressFromCoords_def sample_network_def)
  have named: "nmi \<lparr>lat = fl (-33.8708), lng = fl 151.2073, nmi = ''NMI001''\<rparr> \<noteq> ''''"
    by simp
  show ?thesis
    using geo resolved_record_is_stored [OF fetchNearestNmi_sample named, of initial_state]
      fetchNearestNmi_sample
    by simp
qed

text \<open>
  C5. \<^verbatim>\<open>handleConfirm\<close> copies the address into the confirmed address and leaves the
  address, the NMI, the error and \<^verbatim>\<open>loading\<close> as they were. The position becomes the
  coordinate that \<^verbatim>\<open>fetchLatLngFromAddress\<close> returns for the address; when it returns none
  or rejects, nothing but the confirmed address has changed. A click on the enabled
  confirm button runs it, and \<^verbatim>\<open>handleConfirm\<close> of \<^verbatim>\<open>App.tsx\<close> is the copy alone.
\<close>

theorem confirm_copies_address:
  "confirmedAddress (handleConfirm net s) = address s \<and>
   address (handleConfirm net s) = address s \<and>
   selectedNmi (handleConfirm net s) = selectedNmi s \<and>
   error (handleConfirm net s) = error s \<and>
   loading (handleConfirm net s) = loading s \<and>
   (\<forall>coords. fetchLatLngFromAddress net (address s) = Fulfilled (Some coords) \<longrightarrow>
      handleConfirm net s = s\<lparr>confirmedAddress := address s, selectedPosition := Some coords\<rparr>) \<and>
   ((\<forall>coords. fetchLatLngFromAddress net (address s) \<noteq> Fulfilled (Some coords)) \<longrightarrow>
      handleConfirm net s = s\<lparr>confirmedAddress := address s\<rparr>) \<and>
   (confirm_enabled s \<longrightarrow> click_confirm s = s\<lparr>confirmedAddress := address s\<rparr>) \<and>
   App_handleConfirm t = t\<lparr>confirmedAddress := address t\<rparr>"
proof -
  show ?thesis
  proof (cases "fetchLatLngFromAddress net (address s)")
    case Rejected
    then show ?thesis
      by (simp add: handleConfirm_def handleConfirm_begin_def handleConfirm_settled_def
          click_confirm_def App_handleConfirm_def)
  next
    case (Fulfilled r)
    then show ?thesis
      by (cases r)
        (simp_all add: handleConfirm_def handleConfirm_begin_def handleConfirm_settled_def
          click_confirm_def App_handleConfirm_def)
  qed
qed

theorem confirm_copies_address_witness:
  "handleConfirm sample_network resolved_sydney =
     resolved_sydney\<lparr>confirmedAddress := ''1 Market St'',
                     selectedPosition := Some \<lparr>lat = Finite (-33.875), lng = Finite 151.25\<rparr>\<rparr> \<and>
   handleConfirm offline resolved_sydney = resolved_sydney\<lparr>confirmedAddress := ''1 Market St''\<rparr> \<and>
   confirm_enabled resolved_sydney \<and>
   click_confirm resolved_sydney = resolved_sydney\<lparr>confirmedAddress := ''1 Market St''\<rparr>"
proof -
  have a: "address resolved_sydney = ''1 Market St''"
    by (simp add: resolved_sydney_def)
  have found: "fetchLatLngFromAddress sample_network (address resolved_sydney) =
      Fulfilled (Some \<lparr>lat = Finite (-33.875), lng = Finite 151.25\<rparr>)"
    by (simp add: fetchLatLngFromAddress_def sample_network_def)
  have failed: "\<forall>coords. fetchLatLngFromAddress offline (address resolved_sydney) \<noteq> Fulfilled (Some coords)"
    by (simp add: fetchLatLngFromAddress_def offline_def)
  have enabled: "confirm_enabled resolved_sydney"
    by (simp add: confirm_enabled_def render_panel_def details_of_def resolved_sydney_def)
  show ?thesis
    using a found failed enabled
      confirm_copies_address [of sample_network resolved_sydney
        "\<lparr>selectedPosition = None, selectedNmi = None, address = [], confirmedAddress = []\<rparr>"]
      confirm_copies_address [of offline resolved_sydney
        "\<lparr>selectedPosition = None, selectedNmi = None, address = [], confirmedAddress = []\<rparr>"]
    by simp
qed

text \<open>
  C6. Without \<^verbatim>\<open>navigator.geolocation\<close> the handler sets the error message, requests
  nothing and leaves \<^verbatim>\<open>loading\<close> as it was; clicked on the details panel, where
  \<^verbatim>\<open>loading\<close> is clear, it makes the panel show that message. With it, the handler sets
  \<^verbatim>\<open>loading\<close>, clears the error and makes one request, with high accuracy and a timeout of
  10000 milliseconds. A fix then gives the state \<^verbatim>\<open>handleMapClick\<close> gives at that
  coordinate; a failure, whatever its code, sets the error, clears \<^verbatim>\<open>loading\<close> and leaves
  the NMI, the position and both addresses as they were.
\<close>

theorem use_current_location_outcomes:
  "handleUseCurrentLocation False s =
     (s\<lparr>error := ''Geolocation is not supported by your browser.''\<rparr>, None) \<and>
   use_current_location net None s = s\<lparr>error := ''Geolocation is not supported by your browser.''\<rparr> \<and>
   loading (use_current_location net None s) = loading s \<and>
   (\<forall>d disabled. render_panel s = DetailsPanel d disabled \<longrightarrow>
      \<not> loading (click_use_current_location False s) \<and>
      render_panel (click_use_current_location False s) =
        ErrorPanel ''Geolocation is not supported by your browser.'') \<and>
   handleUseCurrentLocation True s =
     (s\<lparr>loading := True, error := ''''\<rparr>, Some \<lparr>enableHighAccuracy = True, timeout = 10000\<rparr>) \<and>
   use_current_location net (Some (Position latitude longitude)) s =
     handleMapClick net latitude longitude s \<and>
   use_current_location net (Some (Failure geoError)) s =
     s\<lparr>loading := False,
       error := ''Unable to retrieve your location. Please allow location access and try again.''\<rparr> \<and>
   selectedNmi (use_current_location net (Some (Failure geoError)) s) = selectedNmi s"
proof -
  have "handleMapClick net latitude longitude (s\<lparr>loading := True, error := ''''\<rparr>) =
      handleMapClick net latitude longitude s"
    by (rule handleMapClick_ignores_old_state)
  then show ?thesis
    by (auto simp: handleUseCurrentLocation_def use_current_location_def position_error_callback_def
        click_use_current_location_def render_panel_def split: if_splits option.splits)
qed

theorem use_current_location_outcomes_witness:
  "render_panel resolved_sydney =
     DetailsPanel (details_of ''NMI001'' resolved_sydney) False \<and>
   render_panel (click_use_current_location False resolved_sydney) =
     ErrorPanel ''Geolocation is not supported by your browser.'' \<and>
   snd (handleUseCurrentLocation True resolved_sydney) =
     Some \<lparr>enableHighAccuracy = True, timeout = 10000\<rparr> \<and>
   use_current_location offline (Some (Failure TIMEOUT)) resolved_sydney =
     resolved_sydney\<lparr>loading := False,
       error := ''Unable to retrieve your location. Please allow location access and try again.''\<rparr>"
proof -
  have shown: "render_panel resolved_sydney =
      DetailsPanel (details_of ''NMI001'' resolved_sydney) False"
    by (simp add: render_panel_def resolved_sydney_def)
  note all = use_current_location_outcomes [of resolved_sydney offline "Finite 0" "Finite 0" TIMEOUT]
  have "render_panel (click_use_current_location False resolved_sydney) =
      ErrorPanel ''Geolocation is not supported by your browser.''"
    using all shown by blast
  moreover have "snd (handleUseCurrentLocation True resolved_sydney) =
      Some \<lparr>enableHighAccuracy = True, timeout = 10000\<rparr>"
    using all by simp
  moreover have "use_current_location offline (Some (Failure TIMEOUT)) resolved_sydney =
      resolved_sydney\<lparr>loading := False,
        error := ''Unable to retrieve your location. Please allow location access and try again.''\<rparr>"
    using all by blast
  ultimately show ?thesis
    using shown by blast
qed

text \<open>
  C7. On the details panel the confirm button is disabled exactly when the address is empty
  or equal to the confirmed address, and a click on it leaves the state as it is exactly
  when it is disabled; the same in \<^verbatim>\<open>App.tsx\<close>.
\<close>

theorem confirm_disabled_exactly_when:
  "(render_panel s = DetailsPanel d b \<longrightarrow>
      (confirm_disabled d \<longleftrightarrow> address s = '''' \<or> address s = confirmedAddress s) \<and>
      (click_confirm s = s \<longleftrightarrow> confirm_disabled d) \<and>
      (confirm_enabled s \<longleftrightarrow> \<not> confirm_disabled d)) \<and>
   (App_render_panel t = Some d' \<longrightarrow>
      (confirm_disabled d' \<longleftrightarrow> address t = '''' \<or> address t = confirmedAddress t) \<and>
      (App_click_confirm t = t \<longleftrightarrow> confirm_disabled d'))"
proof (intro conjI impI)
  assume shown: "render_panel s = DetailsPanel d b"
  then have d: "d = details_of (the (selectedNmi s)) s"
    by (auto simp: render_panel_def split: if_splits option.splits)
  then show dis: "confirm_disabled d \<longleftrightarrow> address s = '''' \<or> address s = confirmedAddress s"
    by (simp add: details_of_def)
  show en: "confirm_enabled s \<longleftrightarrow> \<not> confirm_disabled d"
    using shown by (simp add: confirm_enabled_def)
  have "s\<lparr>confirmedAddress := address s\<rparr> = s \<longleftrightarrow> address s = confirmedAddress s"
    by (cases s) auto
  then show "click_confirm s = s \<longleftrightarrow> confirm_disabled d"
    using en dis by (auto simp: click_confirm_def handleConfirm_begin_def)
next
  assume shown: "App_render_panel t = Some d'"
  then have d: "d' = details_of (the (selectedNmi t)) t"
    by (auto simp: App_render_panel_def split: if_splits option.splits)
  then show dis: "confirm_disabled d' \<longleftrightarrow> address t = '''' \<or> address t = confirmedAddress t"
    by (simp add: details_of_def)
  have "t\<lparr>confirmedAddress := address t\<rparr> = t \<longleftrightarrow> address t = confirmedAddress t"
    by (cases t) auto
  then show "App_click_confirm t = t \<longleftrightarrow> confirm_disabled d'"
    using shown dis by (auto simp: App_click_confirm_def App_handleConfirm_def)
qed

theorem confirm_disabled_exactly_when_witness:
  "render_panel resolved_sydney = DetailsPanel (details_of ''NMI001'' resolved_sydney) False \<and>
   \<not> confirm_disabled (details_of ''NMI001'' resolved_sydney) \<and>
   click_confirm resolved_sydney \<noteq> resolved_sydney \<and>
   render_panel confirmed_sydney = DetailsPanel (details_of ''NMI001'' confirmed_sydney) False \<and>
   confirm_disabled (details_of ''NMI001'' confirmed_sydney) \<and>
   click_confirm confirmed_sydney = confirmed_sydney \<and>
   App_render_panel (App_state.truncate confirmed_sydney) =
     Some (details_of ''NMI001'' (App_state.truncate confirmed_sydney)) \<and>
   App_click_confirm (App_state.truncate confirmed_sydney) = App_state.truncate confirmed_sydney"
proof -
  have r: "render_panel resolved_sydney = DetailsPanel (details_of ''NMI001'' resolved_sydney) False"
    by (simp add: render_panel_def resolved_sydney_def)
  have c: "render_panel confirmed_sydney = DetailsPanel (details_of ''NMI001'' confirmed_sydney) False"
    by (simp add: render_panel_def confirmed_sydney_def)
  have t: "App_render_panel (App_state.truncate confirmed_sydney) =
      Some (details_of ''NMI001'' (App_state.truncate confirmed_sydney))"
    by (simp add: App_render_panel_def confirmed_sydney_def App_state.truncate_def)
  have "address resolved_sydney \<noteq> '''' \<and> address resolved_sydney \<noteq> confirmedAddress resolved_sydney"
    by (simp add: resolved_sydney_def)
  moreover have "address confirmed_sydney = confirmedAddress confirmed_sydney"
    by (simp add: confirmed_sydney_def)
  moreover have "address (App_state.truncate confirmed_sydney) =
      confirmedAddress (App_state.truncate confirmed_sydney)"
    by (simp add: confirmed_sydney_def App_state.truncate_def)
  ultimately show ?thesis
    using r c t
      confirm_disabled_exactly_when [of resolved_sydney "details_of ''NMI001'' resolved_sydney" False
        "App_state.truncate confirmed_sydney" "details_of ''NMI001'' (App_state.truncate confirmed_sydney)"]
      confirm_disabled_exactly_when [of confirmed_sydney "details_of ''NMI001'' confirmed_sydney" False
        "App_state.truncate confirmed_sydney" "details_of ''NMI001'' (App_state.truncate confirmed_sydney)"]
    by blast
qed

end
